theory Spec2Isabelle
  imports Complex_Main
begin

section \<open>Data model (workshop/api/models.py)\<close>

text \<open>
  The tables of the application, one record per row. Primary keys are the automatic
  integer keys of the object-relational mapper; a foreign key is the primary key of the
  row it points to. Timestamps are natural numbers (the clock value of the request).
\<close>

type_synonym pk = nat
type_synonym time = nat

text \<open>
  A Python float as far as the comparisons of the validators are concerned: every
  finite float is a rational number, the rest are the two infinities and NaN.
\<close>

datatype pyfloat = Finite rat | PosInf | NegInf | NaN

text \<open>JSON documents (the \<open>files\<close> field of a Script).\<close>

datatype json = JNull | JBool bool | JNum int | JStr string
  | JArr "json list" | JObj "(string \<times> json) list"

text \<open>\<open>django.contrib.auth.models.User\<close>, the columns the application touches.\<close>

record user =
  user_pk :: pk
  username :: string
  email :: string
  password :: string
  is_staff :: bool

text \<open>\<open>request.user\<close>: a User row, or the anonymous user of an unauthenticated request.\<close>

datatype principal = AnonymousUser | Authenticated user

text \<open>
  \<open>class Script(models.Model)\<close>. \<open>views\<close> is the integer the handler computes with, a
  Python \<open>int\<close>.
\<close>

record script =
  script_pk :: pk
  files :: json
  name :: string
  author :: pk
  script_created :: time
  script_modified :: time
  language :: string
  version :: string
  description :: string
  views :: int
  licence :: string

text \<open>\<open>class Rating(models.Model)\<close>.\<close>

record rating =
  rating_pk :: pk
  rating_value :: pyfloat
  comment :: string
  rating_created :: time
  rating_modified :: time
  rating_user :: pk
  rating_script :: pk

text \<open>\<open>class OS(models.Model)\<close> and \<open>django.contrib.auth.models.Group\<close>.\<close>

record os =
  os_pk :: pk
  os_name :: string
  os_description :: string
  os_url :: string

record group =
  group_pk :: pk
  group_name :: string

text \<open>
  The database. \<open>auth_user_groups\<close> is the many-to-many table between User and Group
  (\<open>User.groups\<close>), rows \<open>(user, group)\<close>; \<open>script_compatibility\<close> the one between
  Script and OS (\<open>Script.compatibility\<close>), rows \<open>(script, os)\<close>.
\<close>

record store =
  users :: "user list"
  groups :: "group list"
  oses :: "os list"
  auth_user_groups :: "(pk \<times> pk) list"
  scripts :: "script list"
  script_compatibility :: "(pk \<times> pk) list"
  ratings :: "rating list"

text \<open>
  The exceptions a request can end with. A ValidationError carries the pairs of field
  name and message that the serializer collected.
\<close>

datatype error =
    PermissionDenied string
  | ValidationError "(string \<times> string) list"
  | Http404
  | KeyError string
  | ValueError
  | TypeError
  | IntegrityError

text \<open>The models a hyperlink or an instance can refer to.\<close>

datatype model = UserModel | GroupModel | ScriptModel | RatingModel | OSModel

text \<open>Values of a serialized representation (a JSON object sent to the client).\<close>

datatype val = VStr string | VInt int | VFloat pyfloat | VJson json | VDateTime time
  | VUrl model pk | VMany "val list"

type_synonym dict = "(string \<times> val) list"

definition getitem :: "dict \<Rightarrow> string \<Rightarrow> error + val" where
  \<comment> \<open>\<open>d[k]\<close>, raising KeyError on a missing key\<close>
  "getitem d k = (case map_of d k of None \<Rightarrow> Inl (KeyError k) | Some v \<Rightarrow> Inr v)"

definition bind_err :: "error + 'a \<Rightarrow> ('a \<Rightarrow> error + 'b) \<Rightarrow> error + 'b" where
  \<comment> \<open>sequencing of statements that may raise\<close>
  "bind_err r f = (case r of Inl e \<Rightarrow> Inl e | Inr v \<Rightarrow> f v)"

definition keys :: "dict \<Rightarrow> string list" where
  "keys d = map fst d"

fun principal_is_staff :: "principal \<Rightarrow> bool" where
  \<comment> \<open>\<open>request.user.is_staff\<close>; the anonymous user is never staff\<close>
  "principal_is_staff AnonymousUser = False"
| "principal_is_staff (Authenticated u) = is_staff u"

fun same_user :: "user \<Rightarrow> principal \<Rightarrow> bool" where
  \<comment> \<open>\<open>instance == request.user\<close>: model instances are equal when their keys are\<close>
  "same_user instance AnonymousUser = False"
| "same_user instance (Authenticated u) = (user_pk instance = user_pk u)"

section \<open>What the source imports\<close>

text \<open>
  The source calls functions that models.py, serializers.py and views.py do not
  define: the validators of \<open>workshop/api/validators.py\<close> and the account functions
  and field checks of the framework; and the database decides what the source leaves
  open. They are parameters of the model, so every theorem holds whatever they
  compute. A validator is \<open>True\<close> on a value it lets pass (it raises no ValidationError).
\<close>

record env =
  make_password :: "string option \<Rightarrow> string"
  normalize_email :: "string \<Rightarrow> string"
  normalize_username :: "string \<Rightarrow> string"
  validate_email :: "user list \<Rightarrow> string \<Rightarrow> bool"
  validate_language :: "string \<Rightarrow> bool"
  validate_script_files :: "json \<Rightarrow> bool"
  field_valid :: "string \<Rightarrow> string \<Rightarrow> bool"
  row_rank :: "pk \<times> pk \<Rightarrow> nat"

text \<open>
  \<open>make_password\<close> is the framework's password hasher as \<open>create_user\<close> applies it;
  \<open>validate_email\<close> is given the User table it may query; \<open>field_valid\<close> stands for the
  framework's own checks of the text field of that name (blank values, maximal length,
  the syntax of usernames and emails).

  \<open>row_rank\<close> stands for a choice of the database. \<open>instance.groups.all()\<close> is a query
  with no \<open>ORDER BY\<close> (the Group model declares no ordering), so the order of its rows
  is the database's: the rows of \<open>auth_user_groups\<close> come by ascending rank, and rows of
  equal rank in the order of their insertion. A constant rank is the order of insertion,
  the rank \<open>snd\<close> the order of the group keys.
\<close>

section \<open>Queries\<close>

definition groups_all :: "env \<Rightarrow> user \<Rightarrow> store \<Rightarrow> pk list" where
  \<comment> \<open>\<open>instance.groups.all()\<close>, as group keys, in the order the database gives\<close>
  "groups_all e instance st =
     map snd (sort_key (row_rank e)
       (filter (\<lambda>r. fst r = user_pk instance) (auth_user_groups st)))"

definition scripts_of :: "user \<Rightarrow> store \<Rightarrow> pk list" where
  \<comment> \<open>\<open>instance.scripts.all()\<close> (\<open>related_name='scripts'\<close> of \<open>Script.author\<close>)\<close>
  "scripts_of instance st =
     map script_pk (filter (\<lambda>s. author s = user_pk instance) (scripts st))"

definition ratings_of :: "user \<Rightarrow> store \<Rightarrow> pk list" where
  \<comment> \<open>\<open>instance.ratings.all()\<close> (\<open>related_name='ratings'\<close> of \<open>Rating.user\<close>)\<close>
  "ratings_of instance st =
     map rating_pk (filter (\<lambda>r. rating_user r = user_pk instance) (ratings st))"

section \<open>UserSerializer (workshop/api/serializers.py)\<close>

text \<open>
  \<open>validated_data\<close> of the serializer: one optional entry per writable field
  (\<open>scripts\<close> and \<open>ratings\<close> are read-only and never part of it). \<open>None\<close> is a key that
  the dictionary does not have.
\<close>

record user_data =
  ud_username :: "string option"
  ud_email :: "string option"
  ud_groups :: "pk list option"

definition related_set :: "pk \<Rightarrow> pk list \<Rightarrow> (pk \<times> pk) list \<Rightarrow> (pk \<times> pk) list" where
  \<comment> \<open>\<open>instance.<many-to-many field>.set(objs)\<close> on the table of the field: the rows
      of the instance whose target is no longer wanted are removed, rows for the new
      targets are added, the rows of the targets kept stay\<close>
  "related_set i objs tbl =
     (let old = map snd (filter (\<lambda>r. fst r = i) tbl)
      in filter (\<lambda>r. fst r \<noteq> i \<or> snd r \<in> set objs) tbl
         @ map (\<lambda>k. (i, k)) (remdups (filter (\<lambda>k. k \<notin> set old) objs)))"

definition ModelSerializer_update_user :: "user \<Rightarrow> user_data \<Rightarrow> store \<Rightarrow> user \<times> store" where
  \<comment> \<open>\<open>ModelSerializer.update\<close>: every key of \<open>validated_data\<close> is set on the instance,
      the instance is saved, then the many-to-many field is set\<close>
  "ModelSerializer_update_user instance validated_data st =
     (let i1 = (case ud_username validated_data of None \<Rightarrow> instance
                | Some v \<Rightarrow> instance\<lparr>username := v\<rparr>);
          i2 = (case ud_email validated_data of None \<Rightarrow> i1 | Some v \<Rightarrow> i1\<lparr>email := v\<rparr>);
          st1 = st\<lparr>users := map (\<lambda>u. if user_pk u = user_pk i2 then i2 else u) (users st)\<rparr>;
          st2 = (case ud_groups validated_data of None \<Rightarrow> st1
                 | Some gs \<Rightarrow> st1\<lparr>auth_user_groups := related_set (user_pk i2) gs (auth_user_groups st1)\<rparr>)
      in (i2, st2))"

definition groups_message :: string where
  "groups_message = ''You can't add or remove yourself from groups''"

definition UserSerializer_update ::
  "env \<Rightarrow> principal \<Rightarrow> user \<Rightarrow> user_data \<Rightarrow> store \<Rightarrow> (error + user) \<times> store" where
  "UserSerializer_update e request_user instance validated_data st =
     (if \<not> principal_is_staff request_user then
        (let user_groups = groups_all e instance st;
             new_groups = (case ud_groups validated_data of Some gs \<Rightarrow> gs | None \<Rightarrow> [])
         in if user_groups \<noteq> new_groups
            then (Inl (PermissionDenied groups_message), st)
            else (case ModelSerializer_update_user instance validated_data st of
                    (i, st') \<Rightarrow> (Inr i, st')))
      else (case ModelSerializer_update_user instance validated_data st of
              (i, st') \<Rightarrow> (Inr i, st')))"

definition ModelSerializer_to_representation_user ::
  "env \<Rightarrow> user \<Rightarrow> store \<Rightarrow> dict" where
  \<comment> \<open>the fields of \<open>Meta.fields\<close>, in their order\<close>
  "ModelSerializer_to_representation_user e instance st =
     [(''url'', VUrl UserModel (user_pk instance)),
      (''username'', VStr (username instance)),
      (''email'', VStr (email instance)),
      (''groups'', VMany (map (VUrl GroupModel) (groups_all e instance st))),
      (''scripts'', VMany (map (VUrl ScriptModel) (scripts_of instance st))),
      (''ratings'', VMany (map (VUrl RatingModel) (ratings_of instance st)))]"

definition UserSerializer_to_representation ::
  "env \<Rightarrow> principal \<Rightarrow> user \<Rightarrow> store \<Rightarrow> error + dict" where
  "UserSerializer_to_representation e request_user instance st =
     (if same_user instance request_user \<or> principal_is_staff request_user
      then Inr (ModelSerializer_to_representation_user e instance st)
      else
        (let representation = ModelSerializer_to_representation_user e instance st in
         bind_err (getitem representation ''url'') (\<lambda>url.
         bind_err (getitem representation ''username'') (\<lambda>uname.
         bind_err (getitem representation ''groups'') (\<lambda>grps.
         bind_err (getitem representation ''scripts'') (\<lambda>scrs.
         bind_err (getitem representation ''ratings'') (\<lambda>rats.
           Inr [(''url'', url), (''username'', uname), (''groups'', grps),
                (''scripts'', scrs), (''ratings'', rats)])))))))"

section \<open>Helpers of validation and creation\<close>

definition next_pk :: "pk list \<Rightarrow> pk" where
  \<comment> \<open>the key the database gives to a new row\<close>
  "next_pk ks = Suc (fold max ks 0)"

definition required :: "bool \<Rightarrow> string \<Rightarrow> 'a option \<Rightarrow> (string \<times> string) list" where
  \<comment> \<open>a required field that the request lacks is an error, unless the update is partial\<close>
  "required partial field v =
     (if v = None \<and> \<not> partial then [(field, ''This field is required.'')] else [])"

definition checked ::
  "string \<Rightarrow> string \<Rightarrow> 'a option \<Rightarrow> ('a \<Rightarrow> bool) \<Rightarrow> (string \<times> string) list" where
  \<comment> \<open>a validator, run on the field when the request has it\<close>
  "checked field message v ok =
     (case v of None \<Rightarrow> [] | Some x \<Rightarrow> if ok x then [] else [(field, message)])"

definition or_default :: "'a option \<Rightarrow> 'a \<Rightarrow> 'a" where
  \<comment> \<open>a column takes the value passed, or the default of its field\<close>
  "or_default v d = (case v of None \<Rightarrow> d | Some x \<Rightarrow> x)"

section \<open>ScriptSerializer\<close>

text \<open>
  The data of a Script request, and \<open>validated_data\<close>: one optional entry per field that
  is a column of the model. (\<open>ratings\<close> is the reverse side of \<open>Rating.script\<close> and
  \<open>downloads\<close> is commented out in the model: neither is a column, both are read-only.)
\<close>

record script_data =
  sd_name :: "string option"
  sd_created :: "time option"
  sd_modified :: "time option"
  sd_language :: "string option"
  sd_version :: "string option"
  sd_description :: "string option"
  sd_author :: "principal option"
  sd_files :: "json option"
  sd_licence :: "string option"
  sd_compatibility :: "pk list option"
  sd_views :: "int option"

definition ScriptSerializer_read_only_fields :: "string list" where
  "ScriptSerializer_read_only_fields =
     [''created'', ''modified'', ''downloads'', ''views'', ''author'', ''ratings'']"

definition script_writable :: "string list \<Rightarrow> script_data \<Rightarrow> script_data" where
  \<comment> \<open>the serializer reads no read-only field from the request\<close>
  "script_writable read_only d =
     d\<lparr>sd_created := (if ''created'' \<in> set read_only then None else sd_created d),
       sd_modified := (if ''modified'' \<in> set read_only then None else sd_modified d),
       sd_views := (if ''views'' \<in> set read_only then None else sd_views d),
       sd_author := (if ''author'' \<in> set read_only then None else sd_author d)\<rparr>"

definition ScriptSerializer_run_validation ::
  "env \<Rightarrow> bool \<Rightarrow> script_data \<Rightarrow> store \<Rightarrow> error + script_data" where
  \<comment> \<open>\<open>serializer.is_valid(raise_exception=True)\<close>: the fields the model requires
      (\<open>name\<close>, \<open>language\<close>, \<open>files\<close> have no default and are not blank), the validators
      the model declares, and the existence of every OS referred to\<close>
  "ScriptSerializer_run_validation e partial data st =
     (let d = script_writable ScriptSerializer_read_only_fields data;
          errors =
            required partial ''name'' (sd_name d)
            @ checked ''name'' ''invalid'' (sd_name d) (field_valid e ''name'')
            @ required partial ''language'' (sd_language d)
            @ checked ''language'' ''invalid'' (sd_language d) (field_valid e ''language'')
            @ checked ''language'' ''not allowed'' (sd_language d) (validate_language e)
            @ checked ''version'' ''invalid'' (sd_version d) (field_valid e ''version'')
            @ checked ''description'' ''invalid'' (sd_description d)
                (field_valid e ''description'')
            @ required partial ''files'' (sd_files d)
            @ checked ''files'' ''invalid'' (sd_files d) (validate_script_files e)
            @ checked ''licence'' ''invalid'' (sd_licence d) (field_valid e ''licence'')
            @ checked ''compatibility'' ''does not exist'' (sd_compatibility d)
                (\<lambda>objs. list_all (\<lambda>k. k \<in> set (map os_pk (oses st))) objs)
      in if errors = [] then Inr d else Inl (ValidationError errors))"

definition ModelSerializer_create_script ::
  "time \<Rightarrow> script_data \<Rightarrow> store \<Rightarrow> (error + script) \<times> store" where
  \<comment> \<open>\<open>ModelSerializer.create\<close>: \<open>Script.objects.create(**validated_data)\<close> without the
      many-to-many field, which is set once the row exists. A foreign key takes a User
      instance only; \<open>author\<close> and \<open>files\<close> have no default and are not null;
      \<open>created\<close> and \<open>modified\<close> are set on saving (\<open>auto_now_add\<close>, \<open>auto_now\<close>)
      whatever was passed\<close>
  "ModelSerializer_create_script now validated_data st =
     (case sd_author validated_data of
        None \<Rightarrow> (Inl IntegrityError, st)
      | Some AnonymousUser \<Rightarrow> (Inl ValueError, st)
      | Some (Authenticated u) \<Rightarrow>
          (case sd_files validated_data of
             None \<Rightarrow> (Inl IntegrityError, st)
           | Some f \<Rightarrow>
               (let instance =
                      \<lparr>script_pk = next_pk (map script_pk (scripts st)),
                       files = f,
                       name = or_default (sd_name validated_data) [],
                       author = user_pk u,
                       script_created = now,
                       script_modified = now,
                       language = or_default (sd_language validated_data) [],
                       version = or_default (sd_version validated_data) ''1.0'',
                       description = or_default (sd_description validated_data) [],
                       views = or_default (sd_views validated_data) 0,
                       licence = or_default (sd_licence validated_data) ''MIT''\<rparr>;
                    st1 = st\<lparr>scripts := scripts st @ [instance]\<rparr>;
                    st2 = (case sd_compatibility validated_data of None \<Rightarrow> st1
                           | Some objs \<Rightarrow> st1\<lparr>script_compatibility :=
                               related_set (script_pk instance) objs
                                 (script_compatibility st1)\<rparr>)
                in (Inr instance, st2))))"

definition ScriptSerializer_create ::
  "principal \<Rightarrow> time \<Rightarrow> script_data \<Rightarrow> store \<Rightarrow> (error + script) \<times> store" where
  "ScriptSerializer_create request_user now validated_data st =
     ModelSerializer_create_script now
       (validated_data\<lparr>sd_author := Some request_user\<rparr>) st"

definition setattr :: "'a option \<Rightarrow> ('a \<Rightarrow> 'r \<Rightarrow> 'r) \<Rightarrow> 'r \<Rightarrow> 'r" where
  \<comment> \<open>\<open>setattr(instance, attr, value)\<close> for an attribute that \<open>validated_data\<close> may hold\<close>
  "setattr v f instance = (case v of None \<Rightarrow> instance | Some x \<Rightarrow> f x instance)"

definition save_script :: "time \<Rightarrow> script \<Rightarrow> store \<Rightarrow> script \<times> store" where
  \<comment> \<open>\<open>instance.save()\<close> of a row that exists: \<open>modified\<close> is \<open>auto_now\<close>, every column
      of the row with the key of the instance is written\<close>
  "save_script now instance st =
     (let i = instance\<lparr>script_modified := now\<rparr>
      in (i, st\<lparr>scripts := map (\<lambda>s. if script_pk s = script_pk i then i else s) (scripts st)\<rparr>))"

definition ModelSerializer_update_script ::
  "time \<Rightarrow> script \<Rightarrow> script_data \<Rightarrow> store \<Rightarrow> (error + script) \<times> store" where
  \<comment> \<open>\<open>ModelSerializer.update\<close>: every key of \<open>validated_data\<close> is set on the instance,
      the instance is saved, then the many-to-many field is set\<close>
  "ModelSerializer_update_script now instance validated_data st =
     (if sd_author validated_data = Some AnonymousUser then (Inl ValueError, st)
      else
        (let i1 = setattr (sd_name validated_data) (\<lambda>v i. i\<lparr>name := v\<rparr>) instance;
             i2 = setattr (sd_created validated_data) (\<lambda>v i. i\<lparr>script_created := v\<rparr>) i1;
             i3 = setattr (sd_modified validated_data) (\<lambda>v i. i\<lparr>script_modified := v\<rparr>) i2;
             i4 = setattr (sd_language validated_data) (\<lambda>v i. i\<lparr>language := v\<rparr>) i3;
             i5 = setattr (sd_version validated_data) (\<lambda>v i. i\<lparr>version := v\<rparr>) i4;
             i6 = setattr (sd_description validated_data) (\<lambda>v i. i\<lparr>description := v\<rparr>) i5;
             i7 = setattr (sd_author validated_data)
                    (\<lambda>v i. case v of AnonymousUser \<Rightarrow> i
                           | Authenticated u \<Rightarrow> i\<lparr>author := user_pk u\<rparr>) i6;
             i8 = setattr (sd_files validated_data) (\<lambda>v i. i\<lparr>files := v\<rparr>) i7;
             i9 = setattr (sd_licence validated_data) (\<lambda>v i. i\<lparr>licence := v\<rparr>) i8;
             i10 = setattr (sd_views validated_data) (\<lambda>v i. i\<lparr>views := v\<rparr>) i9
         in case save_script now i10 st of
              (i, st1) \<Rightarrow>
                (Inr i,
                 case sd_compatibility validated_data of None \<Rightarrow> st1
                 | Some objs \<Rightarrow> st1\<lparr>script_compatibility :=
                     related_set (script_pk i) objs (script_compatibility st1)\<rparr>)))"

definition ScriptSerializer_to_representation :: "script \<Rightarrow> store \<Rightarrow> dict" where
  \<comment> \<open>the fields of \<open>Meta.fields\<close>, in their order\<close>
  "ScriptSerializer_to_representation instance st =
     [(''url'', VUrl ScriptModel (script_pk instance)),
      (''name'', VStr (name instance)),
      (''created'', VDateTime (script_created instance)),
      (''modified'', VDateTime (script_modified instance)),
      (''language'', VStr (language instance)),
      (''version'', VStr (version instance)),
      (''description'', VStr (description instance)),
      (''ratings'', VMany (map (VUrl RatingModel)
          (map rating_pk (filter (\<lambda>r. rating_script r = script_pk instance) (ratings st))))),
      (''author'', VUrl UserModel (author instance)),
      (''files'', VJson (files instance)),
      (''licence'', VStr (licence instance)),
      (''compatibility'', VMany (map (VUrl OSModel)
          (map snd (filter (\<lambda>r. fst r = script_pk instance) (script_compatibility st))))),
      (''views'', VInt (views instance))]"

section \<open>ScriptViewSet (workshop/api/views.py)\<close>

definition get_script :: "pk \<Rightarrow> store \<Rightarrow> script option" where
  \<comment> \<open>\<open>self.get_object()\<close>: the row of the queryset with the key of the URL\<close>
  "get_script k st = find (\<lambda>s. script_pk s = k) (scripts st)"

definition update_views :: "pk \<Rightarrow> int \<Rightarrow> store \<Rightarrow> store" where
  \<comment> \<open>\<open>Script.objects.filter(pk=k).update(views=v)\<close>: one UPDATE statement that sets
      the column \<open>views\<close> of the rows with key \<open>k\<close> to the value \<open>v\<close>; no \<open>save()\<close> runs\<close>
  "update_views k v st =
     st\<lparr>scripts := map (\<lambda>s. if script_pk s = k then s\<lparr>views := v\<rparr> else s) (scripts st)\<rparr>"

definition RetrieveModelMixin_retrieve_script :: "pk \<Rightarrow> store \<Rightarrow> error + dict" where
  \<comment> \<open>\<open>super().retrieve(request)\<close>: the object is fetched and serialized\<close>
  "RetrieveModelMixin_retrieve_script k st =
     (case get_script k st of None \<Rightarrow> Inl Http404
      | Some instance \<Rightarrow> Inr (ScriptSerializer_to_representation instance st))"

definition ScriptViewSet_retrieve :: "pk \<Rightarrow> store \<Rightarrow> (error + dict) \<times> store" where
  "ScriptViewSet_retrieve k st =
     (case get_script k st of None \<Rightarrow> (Inl Http404, st)
      | Some instance \<Rightarrow>
          (let st' = update_views (script_pk instance) (views instance + 1) st
           in (RetrieveModelMixin_retrieve_script k st', st')))"

text \<open>
  The same handler, one statement at a time, for requests that run side by side: each
  request keeps its own \<open>instance\<close> between its statements, and the statements of several
  requests interleave on the one store.
\<close>

datatype retrieve_state =
    Started pk
  | Loaded pk script
  | Updated pk
  | Responded "error + dict"

fun retrieve_step :: "retrieve_state \<Rightarrow> store \<Rightarrow> retrieve_state \<times> store" where
  "retrieve_step (Started k) st =
     (case get_script k st of None \<Rightarrow> (Responded (Inl Http404), st)
      | Some instance \<Rightarrow> (Loaded k instance, st))"
| "retrieve_step (Loaded k instance) st =
     (Updated k, update_views (script_pk instance) (views instance + 1) st)"
| "retrieve_step (Updated k) st = (Responded (RetrieveModelMixin_retrieve_script k st), st)"
| "retrieve_step (Responded r) st = (Responded r, st)"

fun interleave :: "nat list \<Rightarrow> retrieve_state list \<Rightarrow> store \<Rightarrow> retrieve_state list \<times> store" where
  \<comment> \<open>a schedule names, step by step, the request that runs its next statement\<close>
  "interleave [] rs st = (rs, st)"
| "interleave (i # sched) rs st =
     (if i < length rs
      then (case retrieve_step (rs ! i) st of (r, st') \<Rightarrow> interleave sched (rs[i := r]) st')
      else interleave sched rs st)"

fun is_responded :: "retrieve_state \<Rightarrow> bool" where
  "is_responded (Responded r) = True"
| "is_responded _ = False"

fun retrieve_times :: "nat \<Rightarrow> pk \<Rightarrow> store \<Rightarrow> store" where
  \<comment> \<open>\<open>n\<close> retrievals of the same Script, one after the other\<close>
  "retrieve_times 0 k st = st"
| "retrieve_times (Suc n) k st = retrieve_times n k (snd (ScriptViewSet_retrieve k st))"

fun serial :: "nat \<Rightarrow> nat \<Rightarrow> nat list" where
  \<comment> \<open>the schedule that lets the requests \<open>j\<close>, \<open>j + 1\<close>, ... run one after the other,
      each through its three statements\<close>
  "serial j 0 = []"
| "serial j (Suc n) = [j, j, j] @ serial (Suc j) n"

section \<open>RatingSerializer\<close>

fun float_less :: "pyfloat \<Rightarrow> pyfloat \<Rightarrow> bool" where
  \<comment> \<open>\<open>a < b\<close> on floats: every comparison with NaN is false\<close>
  "float_less (Finite a) (Finite b) = (a < b)"
| "float_less (Finite a) PosInf = True"
| "float_less NegInf (Finite b) = True"
| "float_less NegInf PosInf = True"
| "float_less _ _ = False"

definition MinValueValidator :: "rat \<Rightarrow> pyfloat \<Rightarrow> bool" where
  \<comment> \<open>raises when \<open>value < limit\<close>\<close>
  "MinValueValidator limit v = (\<not> float_less v (Finite limit))"

definition MaxValueValidator :: "rat \<Rightarrow> pyfloat \<Rightarrow> bool" where
  \<comment> \<open>raises when \<open>value > limit\<close>\<close>
  "MaxValueValidator limit v = (\<not> float_less (Finite limit) v)"

record rating_data =
  rd_rating :: "pyfloat option"
  rd_comment :: "string option"
  rd_user :: "principal option"
  rd_script :: "pk option"

definition RatingSerializer_read_only_fields :: "string list" where
  "RatingSerializer_read_only_fields = [''user'']"

definition rating_writable :: "string list \<Rightarrow> rating_data \<Rightarrow> rating_data" where
  "rating_writable read_only d =
     d\<lparr>rd_user := (if ''user'' \<in> set read_only then None else rd_user d)\<rparr>"

definition RatingSerializer_run_validation ::
  "env \<Rightarrow> bool \<Rightarrow> rating_data \<Rightarrow> store \<Rightarrow> error + rating_data" where
  \<comment> \<open>\<open>rating\<close> and \<open>script\<close> are required, \<open>comment\<close> may be left out (\<open>blank=True\<close>);
      the validators of \<open>Rating.rating\<close> are those of the model field\<close>
  "RatingSerializer_run_validation e partial data st =
     (let d = rating_writable RatingSerializer_read_only_fields data;
          errors =
            required partial ''rating'' (rd_rating d)
            @ checked ''rating'' ''min_value'' (rd_rating d) (MinValueValidator 0)
            @ checked ''rating'' ''max_value'' (rd_rating d) (MaxValueValidator 5)
            @ checked ''comment'' ''invalid'' (rd_comment d) (field_valid e ''comment'')
            @ required partial ''script'' (rd_script d)
            @ checked ''script'' ''does not exist'' (rd_script d)
                (\<lambda>k. k \<in> set (map script_pk (scripts st)))
      in if errors = [] then Inr d else Inl (ValidationError errors))"

definition ModelSerializer_create_rating ::
  "time \<Rightarrow> rating_data \<Rightarrow> store \<Rightarrow> (error + rating) \<times> store" where
  \<comment> \<open>\<open>Rating.objects.create(**validated_data)\<close>: \<open>rating\<close>, \<open>user\<close> and \<open>script\<close> have
      no default and are not null, \<open>comment\<close> defaults to the empty string\<close>
  "ModelSerializer_create_rating now validated_data st =
     (case rd_user validated_data of
        None \<Rightarrow> (Inl IntegrityError, st)
      | Some AnonymousUser \<Rightarrow> (Inl ValueError, st)
      | Some (Authenticated u) \<Rightarrow>
          (case (rd_rating validated_data, rd_script validated_data) of
             (Some v, Some k) \<Rightarrow>
               (if k \<in> set (map script_pk (scripts st)) then
                  (let instance =
                         \<lparr>rating_pk = next_pk (map rating_pk (ratings st)),
                          rating_value = v,
                          comment = or_default (rd_comment validated_data) [],
                          rating_created = now,
                          rating_modified = now,
                          rating_user = user_pk u,
                          rating_script = k\<rparr>
                   in (Inr instance, st\<lparr>ratings := ratings st @ [instance]\<rparr>))
                else (Inl IntegrityError, st))
           | _ \<Rightarrow> (Inl IntegrityError, st)))"

definition RatingSerializer_create ::
  "principal \<Rightarrow> time \<Rightarrow> rating_data \<Rightarrow> store \<Rightarrow> (error + rating) \<times> store" where
  "RatingSerializer_create request_user now validated_data st =
     ModelSerializer_create_rating now
       (validated_data\<lparr>rd_user := Some request_user\<rparr>) st"

definition ModelSerializer_update_rating ::
  "time \<Rightarrow> rating \<Rightarrow> rating_data \<Rightarrow> store \<Rightarrow> (error + rating) \<times> store" where
  "ModelSerializer_update_rating now instance validated_data st =
     (if rd_user validated_data = Some AnonymousUser then (Inl ValueError, st)
      else
        (let i1 = setattr (rd_rating validated_data) (\<lambda>v i. i\<lparr>rating_value := v\<rparr>) instance;
             i2 = setattr (rd_comment validated_data) (\<lambda>v i. i\<lparr>comment := v\<rparr>) i1;
             i3 = setattr (rd_user validated_data)
                    (\<lambda>v i. case v of AnonymousUser \<Rightarrow> i
                           | Authenticated u \<Rightarrow> i\<lparr>rating_user := user_pk u\<rparr>) i2;
             i4 = setattr (rd_script validated_data) (\<lambda>v i. i\<lparr>rating_script := v\<rparr>) i3;
             i5 = i4\<lparr>rating_modified := now\<rparr>
         in (Inr i5,
             st\<lparr>ratings := map (\<lambda>r. if rating_pk r = rating_pk i5 then i5 else r)
                               (ratings st)\<rparr>)))"

definition RatingSerializer_to_representation :: "rating \<Rightarrow> dict" where
  "RatingSerializer_to_representation instance =
     [(''url'', VUrl RatingModel (rating_pk instance)),
      (''rating'', VFloat (rating_value instance)),
      (''comment'', VStr (comment instance)),
      (''user'', VUrl UserModel (rating_user instance)),
      (''script'', VUrl ScriptModel (rating_script instance)),
      (''created'', VDateTime (rating_created instance)),
      (''modified'', VDateTime (rating_modified instance))]"

section \<open>RegisterSerializer\<close>

record register_data =
  reg_username :: "string option"
  reg_password :: "string option"
  reg_email :: "string option"

definition RegisterSerializer_run_validation ::
  "env \<Rightarrow> register_data \<Rightarrow> store \<Rightarrow> error + register_data" where
  \<comment> \<open>the three fields are required; \<open>username\<close> is unique in the framework's model and
      \<open>email\<close> is made unique, required and validated by \<open>validate_email\<close> at the head
      of models.py\<close>
  "RegisterSerializer_run_validation e data st =
     (let errors =
            required False ''username'' (reg_username data)
            @ checked ''username'' ''invalid'' (reg_username data) (field_valid e ''username'')
            @ checked ''username'' ''unique'' (reg_username data)
                (\<lambda>v. v \<notin> set (map username (users st)))
            @ required False ''password'' (reg_password data)
            @ checked ''password'' ''invalid'' (reg_password data) (field_valid e ''password'')
            @ required False ''email'' (reg_email data)
            @ checked ''email'' ''invalid'' (reg_email data) (field_valid e ''email'')
            @ checked ''email'' ''validate_email'' (reg_email data) (validate_email e (users st))
            @ checked ''email'' ''unique'' (reg_email data)
                (\<lambda>v. v \<notin> set (map email (users st)))
      in if errors = [] then Inr data else Inl (ValidationError errors))"

definition create_user ::
  "env \<Rightarrow> string option \<Rightarrow> string option \<Rightarrow> string option \<Rightarrow> store \<Rightarrow> (error + user) \<times> store" where
  \<comment> \<open>\<open>User.objects.create_user(username, email=None, password=None)\<close>: the username is
      a required argument; email and username are normalized, the password is stored
      hashed, the new user is not staff; usernames are unique in the table\<close>
  "create_user e uname mail pw st =
     (case uname of
        None \<Rightarrow> (Inl TypeError, st)
      | Some n \<Rightarrow>
          (let instance =
                 \<lparr>user_pk = next_pk (map user_pk (users st)),
                  username = normalize_username e n,
                  email = normalize_email e (or_default mail []),
                  password = make_password e pw,
                  is_staff = False\<rparr>
           in if username instance \<in> set (map username (users st))
              then (Inl IntegrityError, st)
              else (Inr instance, st\<lparr>users := users st @ [instance]\<rparr>)))"

definition RegisterSerializer_create ::
  "env \<Rightarrow> register_data \<Rightarrow> store \<Rightarrow> (error + user) \<times> store" where
  "RegisterSerializer_create e validated_data st =
     create_user e (reg_username validated_data) (reg_email validated_data)
       (reg_password validated_data) st"

definition RegisterSerializer_to_representation :: "user \<Rightarrow> dict" where
  \<comment> \<open>\<open>fields = ['username', 'password', 'email']\<close> without the write-only \<open>password\<close>\<close>
  "RegisterSerializer_to_representation instance =
     [(''username'', VStr (username instance)), (''email'', VStr (email instance))]"

definition RegisterViewSet_create ::
  "env \<Rightarrow> register_data \<Rightarrow> store \<Rightarrow> (error + dict) \<times> store" where
  \<comment> \<open>\<open>CreateModelMixin.create\<close>: validate, save, answer with \<open>serializer.data\<close>\<close>
  "RegisterViewSet_create e data st =
     (case RegisterSerializer_run_validation e data st of
        Inl err \<Rightarrow> (Inl err, st)
      | Inr validated_data \<Rightarrow>
          (case RegisterSerializer_create e validated_data st of
             (Inl err, st') \<Rightarrow> (Inl err, st')
           | (Inr instance, st') \<Rightarrow> (Inr (RegisterSerializer_to_representation instance), st')))"

section \<open>Deletion (\<open>on_delete=models.CASCADE\<close>)\<close>

text \<open>
  \<open>instance.delete()\<close> collects the rows that point to the instance through a foreign
  key declared with \<open>on_delete=models.CASCADE\<close>, the rows that point to those, and the
  rows of the many-to-many tables of all of them, and deletes them with the instance.
  The foreign keys of models.py: \<open>Script.author\<close> and \<open>Rating.user\<close> to User,
  \<open>Rating.script\<close> to Script, all three cascading.
\<close>

definition Rating_delete :: "pk \<Rightarrow> store \<Rightarrow> store" where
  "Rating_delete k st = st\<lparr>ratings := filter (\<lambda>r. rating_pk r \<noteq> k) (ratings st)\<rparr>"

definition Script_delete :: "pk \<Rightarrow> store \<Rightarrow> store" where
  "Script_delete k st =
     st\<lparr>ratings := filter (\<lambda>r. rating_script r \<noteq> k) (ratings st),
        script_compatibility := filter (\<lambda>r. fst r \<noteq> k) (script_compatibility st),
        scripts := filter (\<lambda>s. script_pk s \<noteq> k) (scripts st)\<rparr>"

definition User_delete :: "pk \<Rightarrow> store \<Rightarrow> store" where
  "User_delete k st =
     (let owned = map script_pk (filter (\<lambda>s. author s = k) (scripts st))
      in st\<lparr>ratings :=
              filter (\<lambda>r. rating_user r \<noteq> k \<and> rating_script r \<notin> set owned) (ratings st),
            script_compatibility :=
              filter (\<lambda>r. fst r \<notin> set owned) (script_compatibility st),
            scripts := filter (\<lambda>s. author s \<noteq> k) (scripts st),
            auth_user_groups := filter (\<lambda>r. fst r \<noteq> k) (auth_user_groups st),
            users := filter (\<lambda>u. user_pk u \<noteq> k) (users st)\<rparr>)"

section \<open>The viewsets: what each writing request does\<close>

text \<open>
  The handlers of \<open>viewsets.ModelViewSet\<close> for the serializers above, as the mixins of
  the framework define them: \<open>create\<close> validates the data and saves, \<open>update\<close> fetches the
  object, validates and saves, \<open>destroy\<close> fetches the object and deletes it. The
  permission classes of a viewset run before its handler and are not part of it: a
  request they reject leaves the store as it is.
\<close>

definition get_user :: "pk \<Rightarrow> store \<Rightarrow> user option" where
  "get_user k st = find (\<lambda>u. user_pk u = k) (users st)"

definition get_rating :: "pk \<Rightarrow> store \<Rightarrow> rating option" where
  "get_rating k st = find (\<lambda>r. rating_pk r = k) (ratings st)"

definition UserSerializer_run_validation ::
  "env \<Rightarrow> bool \<Rightarrow> user \<Rightarrow> user_data \<Rightarrow> store \<Rightarrow> error + user_data" where
  \<comment> \<open>\<open>username\<close> and \<open>email\<close> are required and unique among the other users,
      \<open>groups\<close> may be left out and every group named must exist\<close>
  "UserSerializer_run_validation e partial instance data st =
     (let others = filter (\<lambda>u. user_pk u \<noteq> user_pk instance) (users st);
          errors =
            required partial ''username'' (ud_username data)
            @ checked ''username'' ''invalid'' (ud_username data) (field_valid e ''username'')
            @ checked ''username'' ''unique'' (ud_username data)
                (\<lambda>v. v \<notin> set (map username others))
            @ required partial ''email'' (ud_email data)
            @ checked ''email'' ''invalid'' (ud_email data) (field_valid e ''email'')
            @ checked ''email'' ''validate_email'' (ud_email data) (validate_email e (users st))
            @ checked ''email'' ''unique'' (ud_email data)
                (\<lambda>v. v \<notin> set (map email others))
            @ checked ''groups'' ''does not exist'' (ud_groups data)
                (\<lambda>objs. list_all (\<lambda>k. k \<in> set (map group_pk (groups st))) objs)
      in if errors = [] then Inr data else Inl (ValidationError errors))"

datatype response = Data dict | NoContent

definition UserViewSet_update ::
  "env \<Rightarrow> principal \<Rightarrow> pk \<Rightarrow> bool \<Rightarrow> user_data \<Rightarrow> store \<Rightarrow> (error + response) \<times> store" where
  "UserViewSet_update e request_user k partial data st =
     (case get_user k st of None \<Rightarrow> (Inl Http404, st)
      | Some instance \<Rightarrow>
          (case UserSerializer_run_validation e partial instance data st of
             Inl err \<Rightarrow> (Inl err, st)
           | Inr validated_data \<Rightarrow>
               (case UserSerializer_update e request_user instance validated_data st of
                  (Inl err, st') \<Rightarrow> (Inl err, st')
                | (Inr i, st') \<Rightarrow>
                    (case UserSerializer_to_representation e request_user i st' of
                       Inl err \<Rightarrow> (Inl err, st')
                     | Inr d \<Rightarrow> (Inr (Data d), st')))))"

definition UserViewSet_destroy :: "pk \<Rightarrow> store \<Rightarrow> (error + response) \<times> store" where
  "UserViewSet_destroy k st =
     (case get_user k st of None \<Rightarrow> (Inl Http404, st)
      | Some instance \<Rightarrow> (Inr NoContent, User_delete (user_pk instance) st))"

definition ScriptViewSet_create ::
  "env \<Rightarrow> principal \<Rightarrow> time \<Rightarrow> script_data \<Rightarrow> store \<Rightarrow> (error + response) \<times> store" where
  "ScriptViewSet_create e request_user now data st =
     (case ScriptSerializer_run_validation e False data st of
        Inl err \<Rightarrow> (Inl err, st)
      | Inr validated_data \<Rightarrow>
          (case ScriptSerializer_create request_user now validated_data st of
             (Inl err, st') \<Rightarrow> (Inl err, st')
           | (Inr i, st') \<Rightarrow> (Inr (Data (ScriptSerializer_to_representation i st')), st')))"

definition ScriptViewSet_update ::
  "env \<Rightarrow> time \<Rightarrow> pk \<Rightarrow> bool \<Rightarrow> script_data \<Rightarrow> store \<Rightarrow> (error + response) \<times> store" where
  "ScriptViewSet_update e now k partial data st =
     (case get_script k st of None \<Rightarrow> (Inl Http404, st)
      | Some instance \<Rightarrow>
          (case ScriptSerializer_run_validation e partial data st of
             Inl err \<Rightarrow> (Inl err, st)
           | Inr validated_data \<Rightarrow>
               (case ModelSerializer_update_script now instance validated_data st of
                  (Inl err, st') \<Rightarrow> (Inl err, st')
                | (Inr i, st') \<Rightarrow>
                    (Inr (Data (ScriptSerializer_to_representation i st')), st'))))"

definition ScriptViewSet_destroy :: "pk \<Rightarrow> store \<Rightarrow> (error + response) \<times> store" where
  "ScriptViewSet_destroy k st =
     (case get_script k st of None \<Rightarrow> (Inl Http404, st)
      | Some instance \<Rightarrow> (Inr NoContent, Script_delete (script_pk instance) st))"

definition RatingViewSet_create ::
  "env \<Rightarrow> principal \<Rightarrow> time \<Rightarrow> rating_data \<Rightarrow> store \<Rightarrow> (error + response) \<times> store" where
  "RatingViewSet_create e request_user now data st =
     (case RatingSerializer_run_validation e False data st of
        Inl err \<Rightarrow> (Inl err, st)
      | Inr validated_data \<Rightarrow>
          (case RatingSerializer_create request_user now validated_data st of
             (Inl err, st') \<Rightarrow> (Inl err, st')
           | (Inr i, st') \<Rightarrow> (Inr (Data (RatingSerializer_to_representation i)), st')))"

definition RatingViewSet_update ::
  "env \<Rightarrow> time \<Rightarrow> pk \<Rightarrow> bool \<Rightarrow> rating_data \<Rightarrow> store \<Rightarrow> (error + response) \<times> store" where
  "RatingViewSet_update e now k partial data st =
     (case get_rating k st of None \<Rightarrow> (Inl Http404, st)
      | Some instance \<Rightarrow>
          (case RatingSerializer_run_validation e partial data st of
             Inl err \<Rightarrow> (Inl err, st)
           | Inr validated_data \<Rightarrow>
               (case ModelSerializer_update_rating now instance validated_data st of
                  (Inl err, st') \<Rightarrow> (Inl err, st')
                | (Inr i, st') \<Rightarrow> (Inr (Data (RatingSerializer_to_representation i)), st'))))"

definition RatingViewSet_destroy :: "pk \<Rightarrow> store \<Rightarrow> (error + response) \<times> store" where
  "RatingViewSet_destroy k st =
     (case get_rating k st of None \<Rightarrow> (Inl Http404, st)
      | Some instance \<Rightarrow> (Inr NoContent, Rating_delete (rating_pk instance) st))"

section \<open>GroupSerializer, OSSerializer and their viewsets\<close>

record group_data =
  gd_name :: "string option"

record os_data =
  od_name :: "string option"
  od_url :: "string option"
  od_description :: "string option"

definition get_group :: "pk \<Rightarrow> store \<Rightarrow> group option" where
  "get_group k st = find (\<lambda>g. group_pk g = k) (groups st)"

definition get_os :: "pk \<Rightarrow> store \<Rightarrow> os option" where
  "get_os k st = find (\<lambda>x. os_pk x = k) (oses st)"

definition GroupSerializer_to_representation :: "group \<Rightarrow> store \<Rightarrow> dict" where
  "GroupSerializer_to_representation instance st =
     [(''url'', VUrl GroupModel (group_pk instance)),
      (''name'', VStr (group_name instance)),
      (''user_set'', VMany (map (VUrl UserModel)
          (map fst (filter (\<lambda>r. snd r = group_pk instance) (auth_user_groups st)))))]"

definition OSSerializer_to_representation :: "os \<Rightarrow> dict" where
  \<comment> \<open>\<open>url\<close> is a column of the model, and so the field of that name\<close>
  "OSSerializer_to_representation instance =
     [(''name'', VStr (os_name instance)), (''url'', VStr (os_url instance)),
      (''description'', VStr (os_description instance))]"

definition GroupSerializer_run_validation ::
  "env \<Rightarrow> bool \<Rightarrow> pk option \<Rightarrow> group_data \<Rightarrow> store \<Rightarrow> error + group_data" where
  \<comment> \<open>the name of a group is required and unique among the other groups\<close>
  "GroupSerializer_run_validation e partial current data st =
     (let others = filter (\<lambda>g. Some (group_pk g) \<noteq> current) (groups st);
          errors =
            required partial ''name'' (gd_name data)
            @ checked ''name'' ''invalid'' (gd_name data) (field_valid e ''name'')
            @ checked ''name'' ''unique'' (gd_name data)
                (\<lambda>v. v \<notin> set (map group_name others))
      in if errors = [] then Inr data else Inl (ValidationError errors))"

definition OSSerializer_run_validation ::
  "env \<Rightarrow> bool \<Rightarrow> os_data \<Rightarrow> error + os_data" where
  \<comment> \<open>\<open>name\<close> is required, \<open>description\<close> and \<open>url\<close> may be left out (\<open>blank=True\<close>)\<close>
  "OSSerializer_run_validation e partial data =
     (let errors =
            required partial ''name'' (od_name data)
            @ checked ''name'' ''invalid'' (od_name data) (field_valid e ''name'')
            @ checked ''url'' ''invalid'' (od_url data) (field_valid e ''url'')
            @ checked ''description'' ''invalid'' (od_description data)
                (field_valid e ''description'')
      in if errors = [] then Inr data else Inl (ValidationError errors))"

definition GroupViewSet_create ::
  "env \<Rightarrow> group_data \<Rightarrow> store \<Rightarrow> (error + response) \<times> store" where
  "GroupViewSet_create e data st =
     (case GroupSerializer_run_validation e False None data st of
        Inl err \<Rightarrow> (Inl err, st)
      | Inr validated_data \<Rightarrow>
          (let instance = \<lparr>group_pk = next_pk (map group_pk (groups st)),
                 group_name = or_default (gd_name validated_data) []\<rparr>;
               st' = st\<lparr>groups := groups st @ [instance]\<rparr>
           in (Inr (Data (GroupSerializer_to_representation instance st')), st')))"

definition GroupViewSet_update ::
  "env \<Rightarrow> pk \<Rightarrow> bool \<Rightarrow> group_data \<Rightarrow> store \<Rightarrow> (error + response) \<times> store" where
  "GroupViewSet_update e k partial data st =
     (case get_group k st of None \<Rightarrow> (Inl Http404, st)
      | Some instance \<Rightarrow>
          (case GroupSerializer_run_validation e partial (Some (group_pk instance)) data st of
             Inl err \<Rightarrow> (Inl err, st)
           | Inr validated_data \<Rightarrow>
               (let i = setattr (gd_name validated_data) (\<lambda>v i. i\<lparr>group_name := v\<rparr>) instance;
                    st' = st\<lparr>groups :=
                            map (\<lambda>g. if group_pk g = group_pk i then i else g) (groups st)\<rparr>
                in (Inr (Data (GroupSerializer_to_representation i st')), st'))))"

definition GroupViewSet_destroy :: "pk \<Rightarrow> store \<Rightarrow> (error + response) \<times> store" where
  \<comment> \<open>the rows of the many-to-many table go with the group\<close>
  "GroupViewSet_destroy k st =
     (case get_group k st of None \<Rightarrow> (Inl Http404, st)
      | Some instance \<Rightarrow>
          (Inr NoContent,
           st\<lparr>auth_user_groups :=
                 filter (\<lambda>r. snd r \<noteq> group_pk instance) (auth_user_groups st),
               groups := filter (\<lambda>g. group_pk g \<noteq> group_pk instance) (groups st)\<rparr>))"

definition OSViewSet_create :: "env \<Rightarrow> os_data \<Rightarrow> store \<Rightarrow> (error + response) \<times> store" where
  "OSViewSet_create e data st =
     (case OSSerializer_run_validation e False data of
        Inl err \<Rightarrow> (Inl err, st)
      | Inr validated_data \<Rightarrow>
          (let instance = \<lparr>os_pk = next_pk (map os_pk (oses st)),
                 os_name = or_default (od_name validated_data) [],
                 os_description = or_default (od_description validated_data) [],
                 os_url = or_default (od_url validated_data) []\<rparr>
           in (Inr (Data (OSSerializer_to_representation instance)),
               st\<lparr>oses := oses st @ [instance]\<rparr>)))"

definition OSViewSet_update ::
  "env \<Rightarrow> pk \<Rightarrow> bool \<Rightarrow> os_data \<Rightarrow> store \<Rightarrow> (error + response) \<times> store" where
  "OSViewSet_update e k partial data st =
     (case get_os k st of None \<Rightarrow> (Inl Http404, st)
      | Some instance \<Rightarrow>
          (case OSSerializer_run_validation e partial data of
             Inl err \<Rightarrow> (Inl err, st)
           | Inr validated_data \<Rightarrow>
               (let i1 = setattr (od_name validated_data) (\<lambda>v i. i\<lparr>os_name := v\<rparr>) instance;
                    i2 = setattr (od_url validated_data) (\<lambda>v i. i\<lparr>os_url := v\<rparr>) i1;
                    i3 = setattr (od_description validated_data)
                           (\<lambda>v i. i\<lparr>os_description := v\<rparr>) i2
                in (Inr (Data (OSSerializer_to_representation i3)),
                    st\<lparr>oses := map (\<lambda>x. if os_pk x = os_pk i3 then i3 else x) (oses st)\<rparr>))))"

definition OSViewSet_destroy :: "pk \<Rightarrow> store \<Rightarrow> (error + response) \<times> store" where
  "OSViewSet_destroy k st =
     (case get_os k st of None \<Rightarrow> (Inl Http404, st)
      | Some instance \<Rightarrow>
          (Inr NoContent,
           st\<lparr>script_compatibility :=
                 filter (\<lambda>r. snd r \<noteq> os_pk instance) (script_compatibility st),
               oses := filter (\<lambda>x. os_pk x \<noteq> os_pk instance) (oses st)\<rparr>))"

section \<open>Requests\<close>

text \<open>
  The requests that write, and the one read that does. Every other read (the lists, and
  the retrieval of a User, Group, Rating or OS) runs no code that writes.
\<close>

datatype request =
    RetrieveScript pk
  | CreateScript script_data
  | UpdateScript pk bool script_data
  | DestroyScript pk
  | CreateRating rating_data
  | UpdateRating pk bool rating_data
  | DestroyRating pk
  | UpdateUser pk bool user_data
  | DestroyUser pk
  | Register register_data
  | CreateGroup group_data
  | UpdateGroup pk bool group_data
  | DestroyGroup pk
  | CreateOS os_data
  | UpdateOS pk bool os_data
  | DestroyOS pk

fun handle ::
  "env \<Rightarrow> principal \<Rightarrow> time \<Rightarrow> request \<Rightarrow> store \<Rightarrow> (error + response) \<times> store" where
  "handle e who now (RetrieveScript k) st =
     (case ScriptViewSet_retrieve k st of (r, st') \<Rightarrow> (map_sum id Data r, st'))"
| "handle e who now (CreateScript d) st = ScriptViewSet_create e who now d st"
| "handle e who now (UpdateScript k partial d) st = ScriptViewSet_update e now k partial d st"
| "handle e who now (DestroyScript k) st = ScriptViewSet_destroy k st"
| "handle e who now (CreateRating d) st = RatingViewSet_create e who now d st"
| "handle e who now (UpdateRating k partial d) st = RatingViewSet_update e now k partial d st"
| "handle e who now (DestroyRating k) st = RatingViewSet_destroy k st"
| "handle e who now (UpdateUser k partial d) st = UserViewSet_update e who k partial d st"
| "handle e who now (DestroyUser k) st = UserViewSet_destroy k st"
| "handle e who now (Register d) st =
     (case RegisterViewSet_create e d st of (r, st') \<Rightarrow> (map_sum id Data r, st'))"
| "handle e who now (CreateGroup d) st = GroupViewSet_create e d st"
| "handle e who now (UpdateGroup k partial d) st = GroupViewSet_update e k partial d st"
| "handle e who now (DestroyGroup k) st = GroupViewSet_destroy k st"
| "handle e who now (CreateOS d) st = OSViewSet_create e d st"
| "handle e who now (UpdateOS k partial d) st = OSViewSet_update e k partial d st"
| "handle e who now (DestroyOS k) st = OSViewSet_destroy k st"

section \<open>Example data\<close>

text \<open>A small database and requests on it, the concrete inputs of the examples below.\<close>

definition alice :: user where
  "alice = \<lparr>user_pk = 1, username = ''alice'', email = ''alice@example.org'',
     password = ''pbkdf2$alice-secret'', is_staff = False\<rparr>"

definition bob :: user where
  "bob = \<lparr>user_pk = 2, username = ''bob'', email = ''bob@example.org'',
     password = ''pbkdf2$bob-secret'', is_staff = False\<rparr>"

definition carol :: user where
  "carol = \<lparr>user_pk = 3, username = ''carol'', email = ''carol@example.org'',
     password = ''pbkdf2$carol-secret'', is_staff = True\<rparr>"

definition clock_script :: script where
  "clock_script = \<lparr>script_pk = 1, files = JObj [(''clock.py'', JStr ''print(1)'')],
     name = ''clock'', author = 1, script_created = 10, script_modified = 20,
     language = ''python'', version = ''1.0'', description = ''a clock'', views = 0,
     licence = ''MIT''\<rparr>"

definition snake_script :: script where
  "snake_script = \<lparr>script_pk = 2, files = JObj [(''snake.py'', JStr ''print(2)'')],
     name = ''snake'', author = 2, script_created = 11, script_modified = 11,
     language = ''python'', version = ''1.0'', description = ''a game'', views = 4,
     licence = ''MIT''\<rparr>"

definition bob_rates_clock :: rating where
  "bob_rates_clock = \<lparr>rating_pk = 1, rating_value = Finite 4, comment = ''nice'',
     rating_created = 12, rating_modified = 12, rating_user = 2, rating_script = 1\<rparr>"

definition alice_rates_snake :: rating where
  "alice_rates_snake = \<lparr>rating_pk = 2, rating_value = Finite 5, comment = [],
     rating_created = 13, rating_modified = 13, rating_user = 1, rating_script = 2\<rparr>"

definition db :: store where
  "db = \<lparr>users = [alice, bob, carol],
     groups = [\<lparr>group_pk = 1, group_name = ''moderators''\<rparr>,
               \<lparr>group_pk = 2, group_name = ''testers''\<rparr>],
     oses = [\<lparr>os_pk = 1, os_name = ''Upsilon'', os_description = [], os_url = []\<rparr>],
     auth_user_groups = [(1, 2)],
     scripts = [clock_script, snake_script],
     script_compatibility = [(1, 1)],
     ratings = [bob_rates_clock, alice_rates_snake]\<rparr>"

definition permissive :: env where
  \<comment> \<open>an environment whose validators let every value pass, whose hasher marks the
      password and whose database returns groups by ascending key\<close>
  "permissive = \<lparr>make_password = (\<lambda>p. case p of None \<Rightarrow> ''!'' | Some s \<Rightarrow> ''pbkdf2$'' @ s),
     normalize_email = (\<lambda>s. s), normalize_username = (\<lambda>s. s),
     validate_email = (\<lambda>us v. True), validate_language = (\<lambda>v. True),
     validate_script_files = (\<lambda>v. True), field_valid = (\<lambda>f v. True),
     row_rank = snd\<rparr>"

definition forged_script :: script_data where
  \<comment> \<open>a request that names another author and a view count\<close>
  "forged_script = \<lparr>sd_name = Some ''pong'', sd_created = None, sd_modified = None,
     sd_language = Some ''python'', sd_version = None, sd_description = None,
     sd_author = Some (Authenticated bob),
     sd_files = Some (JObj [(''pong.py'', JStr ''print(3)'')]), sd_licence = None,
     sd_compatibility = Some [1], sd_views = Some 1000\<rparr>"

definition forged_rating :: rating_data where
  "forged_rating = \<lparr>rd_rating = Some (Finite 5), rd_comment = None,
     rd_user = Some (Authenticated bob), rd_script = Some 2\<rparr>"

definition join_moderators :: user_data where
  \<comment> \<open>an update of alice, a member of group 2, that asks for the groups 1 and 2\<close>
  "join_moderators = \<lparr>ud_username = None, ud_email = None, ud_groups = Some [1, 2]\<rparr>"

definition rename_only :: user_data where
  \<comment> \<open>an update that has no \<open>groups\<close> entry\<close>
  "rename_only = \<lparr>ud_username = Some ''alice2'', ud_email = None, ud_groups = None\<rparr>"

definition keep_groups :: user_data where
  "keep_groups = \<lparr>ud_username = Some ''alice2'', ud_email = None, ud_groups = Some [2]\<rparr>"

definition rate_snake :: "pyfloat \<Rightarrow> rating_data" where
  \<comment> \<open>a rating of script 2 with the given value\<close>
  "rate_snake v = \<lparr>rd_rating = Some v, rd_comment = Some ''fun'', rd_user = None,
     rd_script = Some 2\<rparr>"

definition register_dave :: register_data where
  "register_dave = \<lparr>reg_username = Some ''dave'', reg_password = Some ''dave-secret'',
     reg_email = Some ''dave@example.org''\<rparr>"

definition register_with_alices_email :: register_data where
  "register_with_alices_email = \<lparr>reg_username = Some ''eve'',
     reg_password = Some ''eve-secret'', reg_email = Some ''alice@example.org''\<rparr>"

definition db_two_groups :: store where
  \<comment> \<open>the example database once alice, a member of group 2, has joined group 1 as well\<close>
  "db_two_groups = db\<lparr>auth_user_groups := [(1, 2), (1, 1)]\<rparr>"

definition groups_by_key :: user_data where
  "groups_by_key = \<lparr>ud_username = None, ud_email = None, ud_groups = Some [1, 2]\<rparr>"

definition groups_as_joined :: user_data where
  "groups_as_joined = \<lparr>ud_username = None, ud_email = None, ud_groups = Some [2, 1]\<rparr>"

section \<open>Auxiliary facts\<close>

lemma fold_max_ge: "(a::nat) \<le> fold max ks a"
  by (induction ks arbitrary: a) (auto intro: order_trans[OF max.cobounded2])

lemma fold_max_mem: "k \<in> set ks \<Longrightarrow> (k::nat) \<le> fold max ks a"
proof (induction ks arbitrary: a)
  case Nil
  then show ?case by simp
next
  case (Cons x xs)
  show ?case
  proof (cases "k = x")
    case True
    have "x \<le> max x a" by simp
    also have "\<dots> \<le> fold max xs (max x a)" by (rule fold_max_ge)
    finally show ?thesis using True by simp
  next
    case False
    with Cons show ?thesis by simp
  qed
qed

lemma next_pk_fresh: "next_pk ks \<notin> set ks"
  using fold_max_mem[of "next_pk ks" ks 0] by (auto simp: next_pk_def)

lemma related_set_targets:
  "set (map snd (filter (\<lambda>r. fst r = i) (related_set i objs tbl))) = set objs"
  by (auto simp: related_set_def Let_def)

lemma groups_all_set:
  "set (groups_all e u st)
     = set (map snd (filter (\<lambda>r. fst r = user_pk u) (auth_user_groups st)))"
  by (simp add: groups_all_def)

lemma update_user_groups_all:
  "ModelSerializer_update_user instance vd st = (i, st') \<Longrightarrow>
     user_pk i = user_pk instance \<and>
     (\<forall>gs. ud_groups vd = Some gs \<longrightarrow>
        auth_user_groups st' = related_set (user_pk instance) gs (auth_user_groups st))"
  by (auto simp: ModelSerializer_update_user_def Let_def split: option.splits)

section \<open>The creator of a Script or a Rating\<close>

text \<open>
  C1. When an authenticated user creates a Script, the row that is stored has that user
  as its \<open>author\<close>, whatever \<open>author\<close> entry the data holds: the creation gives the same
  result with any other entry. It succeeds as soon as the data has \<open>files\<close>. The same
  holds for a Rating and its \<open>user\<close>.
\<close>

theorem create_sets_requester:
  assumes "request_user = Authenticated u"
  shows "(\<forall>i st'. ScriptSerializer_create request_user now sd st = (Inr i, st')
            \<longrightarrow> scripts st' = scripts st @ [i] \<and> author i = user_pk u)
       \<and> (sd_files sd \<noteq> None \<longrightarrow>
            (\<exists>i st'. ScriptSerializer_create request_user now sd st = (Inr i, st')))
       \<and> ScriptSerializer_create request_user now (sd\<lparr>sd_author := a\<rparr>) st
            = ScriptSerializer_create request_user now sd st
       \<and> (\<forall>r st'. RatingSerializer_create request_user now rd st = (Inr r, st')
            \<longrightarrow> ratings st' = ratings st @ [r] \<and> rating_user r = user_pk u)
       \<and> (rd_rating rd \<noteq> None
            \<and> (\<exists>k. rd_script rd = Some k \<and> k \<in> set (map script_pk (scripts st))) \<longrightarrow>
            (\<exists>r st'. RatingSerializer_create request_user now rd st = (Inr r, st')))
       \<and> RatingSerializer_create request_user now (rd\<lparr>rd_user := b\<rparr>) st
            = RatingSerializer_create request_user now rd st"
  using assms
  by (auto simp: ScriptSerializer_create_def ModelSerializer_create_script_def Let_def
      RatingSerializer_create_def ModelSerializer_create_rating_def
      split: option.splits if_splits)

theorem create_sets_requester_witness:
  "sd_author forged_script = Some (Authenticated bob)
   \<and> map author
        (scripts (snd (ScriptSerializer_create (Authenticated alice) 30 forged_script db)))
     = [1, 2, user_pk alice]
   \<and> rd_user forged_rating = Some (Authenticated bob)
   \<and> map rating_user
        (ratings (snd (RatingSerializer_create (Authenticated alice) 30 forged_rating db)))
     = [2, 1, user_pk alice]"
proof -
  note fact = create_sets_requester[OF refl, of alice 30 forged_script db undefined
      forged_rating undefined]
  have "sd_files forged_script \<noteq> None"
    by (simp add: forged_script_def)
  with fact obtain i st' where
    script: "ScriptSerializer_create (Authenticated alice) 30 forged_script db = (Inr i, st')"
    by blast
  with fact have stored: "scripts st' = scripts db @ [i]" "author i = user_pk alice"
    by blast+
  have "rd_rating forged_rating \<noteq> None
      \<and> (\<exists>k. rd_script forged_rating = Some k \<and> k \<in> set (map script_pk (scripts db)))"
    by (simp add: forged_rating_def db_def snake_script_def)
  with fact obtain r st'' where
    rating: "RatingSerializer_create (Authenticated alice) 30 forged_rating db = (Inr r, st'')"
    by blast
  with fact have rated: "ratings st'' = ratings db @ [r]" "rating_user r = user_pk alice"
    by blast+
  show ?thesis
    using script stored rating rated
    by (simp add: db_def clock_script_def snake_script_def bob_rates_clock_def
        alice_rates_snake_def forged_script_def forged_rating_def)
qed

section \<open>Updating a User: group membership\<close>

text \<open>
  C3. A caller who is not staff and whose update supplies a list of groups that is not
  the membership of the user ends with PermissionDenied and its fixed message, and the
  store is left as it was. The same update by a staff caller succeeds, and the user is
  then a member of exactly the groups supplied.
\<close>

theorem update_groups_denied:
  "(\<not> principal_is_staff request_user \<and> ud_groups vd = Some gs
      \<and> set gs \<noteq> set (groups_all e instance st)
    \<longrightarrow> UserSerializer_update e request_user instance vd st
          = (Inl (PermissionDenied ''You can't add or remove yourself from groups''), st))
   \<and> (principal_is_staff request_user
    \<longrightarrow> (\<exists>i st'. UserSerializer_update e request_user instance vd st = (Inr i, st')
           \<and> user_pk i = user_pk instance
           \<and> (ud_groups vd = Some gs \<longrightarrow> set (groups_all e i st') = set gs)))"
proof (intro conjI impI)
  assume "\<not> principal_is_staff request_user \<and> ud_groups vd = Some gs
      \<and> set gs \<noteq> set (groups_all e instance st)"
  then show "UserSerializer_update e request_user instance vd st
          = (Inl (PermissionDenied ''You can't add or remove yourself from groups''), st)"
    by (auto simp: UserSerializer_update_def groups_message_def)
next
  assume staff: "principal_is_staff request_user"
  obtain i st' where upd: "ModelSerializer_update_user instance vd st = (i, st')"
    by (cases "ModelSerializer_update_user instance vd st")
  have res: "UserSerializer_update e request_user instance vd st = (Inr i, st')"
    using staff upd by (simp add: UserSerializer_update_def)
  have "ud_groups vd = Some gs \<longrightarrow> set (groups_all e i st') = set gs"
    using update_user_groups_all[OF upd] related_set_targets[of "user_pk instance" gs]
    by (simp add: groups_all_set)
  with res update_user_groups_all[OF upd]
  show "\<exists>i st'. UserSerializer_update e request_user instance vd st = (Inr i, st')
           \<and> user_pk i = user_pk instance
           \<and> (ud_groups vd = Some gs \<longrightarrow> set (groups_all e i st') = set gs)"
    by blast
qed

theorem update_groups_denied_witness:
  "UserSerializer_update permissive (Authenticated alice) alice join_moderators db
     = (Inl (PermissionDenied ''You can't add or remove yourself from groups''), db)
   \<and> (\<exists>i st'. UserSerializer_update permissive (Authenticated carol) alice join_moderators db
                  = (Inr i, st')
        \<and> set (groups_all permissive i st') = {1, 2})"
proof -
  have differs: "\<not> principal_is_staff (Authenticated alice)
      \<and> ud_groups join_moderators = Some [1, 2]
      \<and> set [1, 2] \<noteq> set (groups_all permissive alice db)"
    by (simp add: alice_def join_moderators_def groups_all_def db_def)
  have staff: "principal_is_staff (Authenticated carol)"
    by (simp add: carol_def)
  from update_groups_denied[of "Authenticated alice" join_moderators "[1, 2]" permissive
      alice db] differs
  have "UserSerializer_update permissive (Authenticated alice) alice join_moderators db
     = (Inl (PermissionDenied ''You can't add or remove yourself from groups''), db)"
    by blast
  moreover
  from update_groups_denied[of "Authenticated carol" join_moderators "[1, 2]" permissive
      alice db] staff
  have "\<exists>i st'. UserSerializer_update permissive (Authenticated carol) alice join_moderators db
                  = (Inr i, st')
        \<and> set (groups_all permissive i st') = {1, 2}"
    by (auto simp: join_moderators_def)
  ultimately show ?thesis by blast
qed

text \<open>
  C10. For a caller who is not staff and a user who is a member of some group: an update
  with no \<open>groups\<close> entry is taken as asking for no group at all and ends with
  PermissionDenied, the store left as it was; the update succeeds exactly when it
  supplies the list of the user's groups as the database returns it, in that order. So
  a list of the same groups in another order is denied as well.
\<close>

theorem update_without_groups_denied:
  assumes "\<not> principal_is_staff request_user" and "groups_all e instance st \<noteq> []"
  shows "(ud_groups vd = None \<longrightarrow> UserSerializer_update e request_user instance vd st
            = (Inl (PermissionDenied ''You can't add or remove yourself from groups''), st))
       \<and> ((\<exists>i st'. UserSerializer_update e request_user instance vd st = (Inr i, st'))
            \<longleftrightarrow> ud_groups vd = Some (groups_all e instance st))
       \<and> (ud_groups vd \<noteq> Some (groups_all e instance st)
            \<longrightarrow> UserSerializer_update e request_user instance vd st
              = (Inl (PermissionDenied ''You can't add or remove yourself from groups''), st))"
  using assms
  by (auto simp: UserSerializer_update_def groups_message_def Let_def
      split: option.splits prod.splits)

theorem update_without_groups_denied_witness:
  "groups_all permissive alice db_two_groups = [1, 2]
   \<and> UserSerializer_update permissive (Authenticated alice) alice rename_only db_two_groups
     = (Inl (PermissionDenied ''You can't add or remove yourself from groups''), db_two_groups)
   \<and> (\<exists>i st'. UserSerializer_update permissive (Authenticated alice) alice groups_by_key
                  db_two_groups = (Inr i, st'))
   \<and> UserSerializer_update permissive (Authenticated alice) alice groups_as_joined
        db_two_groups
     = (Inl (PermissionDenied ''You can't add or remove yourself from groups''), db_two_groups)
   \<and> groups_all (permissive\<lparr>row_rank := \<lambda>r. 0\<rparr>) alice db_two_groups = [2, 1]
   \<and> (\<exists>i st'. UserSerializer_update (permissive\<lparr>row_rank := \<lambda>r. 0\<rparr>) (Authenticated alice)
                  alice groups_as_joined db_two_groups = (Inr i, st'))
   \<and> UserSerializer_update (permissive\<lparr>row_rank := \<lambda>r. 0\<rparr>) (Authenticated alice) alice
        groups_by_key db_two_groups
     = (Inl (PermissionDenied ''You can't add or remove yourself from groups''), db_two_groups)"
proof -
  have by_key: "groups_all permissive alice db_two_groups = [1, 2]"
    by (simp add: groups_all_def permissive_def alice_def db_two_groups_def db_def)
  have as_joined: "groups_all (permissive\<lparr>row_rank := \<lambda>r. 0\<rparr>) alice db_two_groups = [2, 1]"
    by (simp add: groups_all_def permissive_def alice_def db_two_groups_def db_def)
  have caller: "\<not> principal_is_staff (Authenticated alice)"
    by (simp add: alice_def)
  have member: "groups_all permissive alice db_two_groups \<noteq> []"
      "groups_all (permissive\<lparr>row_rank := \<lambda>r. 0\<rparr>) alice db_two_groups \<noteq> []"
    by (simp_all add: by_key as_joined)
  have data: "ud_groups rename_only = None" "ud_groups groups_by_key = Some [1, 2]"
      "ud_groups groups_as_joined = Some [2, 1]"
    by (simp_all add: rename_only_def groups_by_key_def groups_as_joined_def)
  from update_without_groups_denied[OF caller member(1), of rename_only]
    update_without_groups_denied[OF caller member(1), of groups_by_key]
    update_without_groups_denied[OF caller member(1), of groups_as_joined]
    update_without_groups_denied[OF caller member(2), of groups_as_joined]
    update_without_groups_denied[OF caller member(2), of groups_by_key]
    by_key as_joined data
  show ?thesis by simp
qed

section \<open>Reading a User\<close>

text \<open>
  C4. A caller who is neither the user nor staff gets the entries \<open>url\<close>, \<open>username\<close>,
  \<open>groups\<close>, \<open>scripts\<close>, \<open>ratings\<close> and no others, so no \<open>email\<close>; the user and staff
  get the six entries of the serializer, the \<open>email\<close> entry holding the email of the
  user.
\<close>

theorem representation_hides_email:
  "(\<not> same_user instance request_user \<and> \<not> principal_is_staff request_user \<longrightarrow>
      (\<exists>rep. UserSerializer_to_representation e request_user instance st = Inr rep
         \<and> keys rep = [''url'', ''username'', ''groups'', ''scripts'', ''ratings'']
         \<and> ''email'' \<notin> set (keys rep)))
   \<and> (same_user instance request_user \<or> principal_is_staff request_user \<longrightarrow>
      (\<exists>rep. UserSerializer_to_representation e request_user instance st = Inr rep
         \<and> keys rep = [''url'', ''username'', ''email'', ''groups'', ''scripts'', ''ratings'']
         \<and> getitem rep ''email'' = Inr (VStr (email instance))))"
  by (simp add: UserSerializer_to_representation_def ModelSerializer_to_representation_user_def
        getitem_def bind_err_def keys_def)

theorem representation_hides_email_witness:
  "(\<exists>rep. UserSerializer_to_representation permissive (Authenticated bob) alice db = Inr rep
        \<and> ''email'' \<notin> set (keys rep))
   \<and> (\<exists>rep. UserSerializer_to_representation permissive AnonymousUser alice db = Inr rep
        \<and> ''email'' \<notin> set (keys rep))
   \<and> (\<exists>rep. UserSerializer_to_representation permissive (Authenticated alice) alice db
               = Inr rep
        \<and> getitem rep ''email'' = Inr (VStr ''alice@example.org''))
   \<and> (\<exists>rep. UserSerializer_to_representation permissive (Authenticated carol) alice db
               = Inr rep
        \<and> getitem rep ''email'' = Inr (VStr ''alice@example.org''))"
  using representation_hides_email[of alice "Authenticated bob" permissive db]
    representation_hides_email[of alice AnonymousUser permissive db]
    representation_hides_email[of alice "Authenticated alice" permissive db]
    representation_hides_email[of alice "Authenticated carol" permissive db]
  by (simp add: alice_def bob_def carol_def) blast

section \<open>The range of a rating\<close>

lemma rating_validators_reject:
  "float_less v (Finite 0) \<or> float_less (Finite 5) v \<Longrightarrow>
     checked ''rating'' ''min_value'' (Some v) (MinValueValidator 0)
       @ checked ''rating'' ''max_value'' (Some v) (MaxValueValidator 5) \<noteq> []"
  by (auto simp: checked_def MinValueValidator_def MaxValueValidator_def)

lemma rating_validators_accept:
  "v = Finite 0 \<or> v = Finite 5 \<Longrightarrow>
     checked ''rating'' ''min_value'' (Some v) (MinValueValidator 0) = []
     \<and> checked ''rating'' ''max_value'' (Some v) (MaxValueValidator 5) = []"
  by (auto simp: checked_def MinValueValidator_def MaxValueValidator_def)

text \<open>
  C5. The creation of a Rating whose value is below 0 or above 5 ends with a
  ValidationError and the store is left as it was. With the value 0 or 5, an
  authenticated caller, an existing script and a comment that passes the framework's
  checks, the creation succeeds and appends a Rating that has this value.
\<close>

theorem rating_bounds:
  "(float_less v (Finite 0) \<or> float_less (Finite 5) v \<longrightarrow>
      (\<exists>errs. RatingViewSet_create e who now (d\<lparr>rd_rating := Some v\<rparr>) st
                = (Inl (ValidationError errs), st)))
   \<and> ((v = Finite 0 \<or> v = Finite 5) \<and> who = Authenticated u
        \<and> rd_script d = Some k \<and> k \<in> set (map script_pk (scripts st))
        \<and> (\<forall>c. rd_comment d = Some c \<longrightarrow> field_valid e ''comment'' c) \<longrightarrow>
      (\<exists>r resp. RatingViewSet_create e who now (d\<lparr>rd_rating := Some v\<rparr>) st
                  = (Inr resp, st\<lparr>ratings := ratings st @ [r]\<rparr>)
         \<and> rating_value r = v \<and> rating_user r = user_pk u \<and> rating_script r = k))"
proof (intro conjI impI)
  assume "float_less v (Finite 0) \<or> float_less (Finite 5) v"
  from rating_validators_reject[OF this]
  show "\<exists>errs. RatingViewSet_create e who now (d\<lparr>rd_rating := Some v\<rparr>) st
                = (Inl (ValidationError errs), st)"
    by (auto simp: RatingViewSet_create_def RatingSerializer_run_validation_def Let_def
        rating_writable_def)
next
  assume a: "(v = Finite 0 \<or> v = Finite 5) \<and> who = Authenticated u
        \<and> rd_script d = Some k \<and> k \<in> set (map script_pk (scripts st))
        \<and> (\<forall>c. rd_comment d = Some c \<longrightarrow> field_valid e ''comment'' c)"
  then have ok: "checked ''rating'' ''min_value'' (Some v) (MinValueValidator 0) = []"
      "checked ''rating'' ''max_value'' (Some v) (MaxValueValidator 5) = []"
    using rating_validators_accept[of v] by blast+
  have comment_ok: "checked ''comment'' ''invalid'' (rd_comment d) (field_valid e ''comment'') = []"
    using a by (auto simp: checked_def split: option.splits)
  have valid: "RatingSerializer_run_validation e False (d\<lparr>rd_rating := Some v\<rparr>) st
      = Inr (d\<lparr>rd_rating := Some v, rd_user := None\<rparr>)"
    using a ok comment_ok
    by (simp add: RatingSerializer_run_validation_def Let_def rating_writable_def
        RatingSerializer_read_only_fields_def required_def checked_def)
  let ?r = "\<lparr>rating_pk = next_pk (map rating_pk (ratings st)), rating_value = v,
      comment = or_default (rd_comment d) [], rating_created = now, rating_modified = now,
      rating_user = user_pk u, rating_script = k\<rparr>"
  have "RatingViewSet_create e who now (d\<lparr>rd_rating := Some v\<rparr>) st
      = (Inr (Data (RatingSerializer_to_representation ?r)), st\<lparr>ratings := ratings st @ [?r]\<rparr>)"
    using a
    by (simp add: RatingViewSet_create_def valid RatingSerializer_create_def
        ModelSerializer_create_rating_def Let_def)
  moreover have "rating_value ?r = v \<and> rating_user ?r = user_pk u \<and> rating_script ?r = k"
    by simp
  ultimately
  show "\<exists>r resp. RatingViewSet_create e who now (d\<lparr>rd_rating := Some v\<rparr>) st
                  = (Inr resp, st\<lparr>ratings := ratings st @ [r]\<rparr>)
         \<and> rating_value r = v \<and> rating_user r = user_pk u \<and> rating_script r = k"
    by blast
qed

theorem rating_bounds_witness:
  "(\<exists>errs. RatingViewSet_create permissive (Authenticated alice) 30 (rate_snake (Finite (-1))) db
             = (Inl (ValidationError errs), db))
   \<and> (\<exists>errs. RatingViewSet_create permissive (Authenticated alice) 30 (rate_snake (Finite 6)) db
             = (Inl (ValidationError errs), db))
   \<and> (\<exists>r resp. RatingViewSet_create permissive (Authenticated alice) 30 (rate_snake (Finite 0)) db
             = (Inr resp, db\<lparr>ratings := ratings db @ [r]\<rparr>) \<and> rating_value r = Finite 0)
   \<and> (\<exists>r resp. RatingViewSet_create permissive (Authenticated alice) 30 (rate_snake (Finite 5)) db
             = (Inr resp, db\<lparr>ratings := ratings db @ [r]\<rparr>) \<and> rating_value r = Finite 5)"
proof -
  have upd: "\<And>v. (rate_snake (Finite 3))\<lparr>rd_rating := Some v\<rparr> = rate_snake v"
    by (simp add: rate_snake_def)
  have low: "float_less (Finite (-1)) (Finite 0) \<or> float_less (Finite 5) (Finite (-1))"
    and high: "float_less (Finite 6) (Finite 0) \<or> float_less (Finite 5) (Finite 6)"
    by simp_all
  have rest: "\<And>v. v = Finite 0 \<or> v = Finite 5 \<Longrightarrow>
      (v = Finite 0 \<or> v = Finite 5) \<and> Authenticated alice = Authenticated alice
        \<and> rd_script (rate_snake (Finite 3)) = Some 2 \<and> 2 \<in> set (map script_pk (scripts db))
        \<and> (\<forall>c. rd_comment (rate_snake (Finite 3)) = Some c
              \<longrightarrow> field_valid permissive ''comment'' c)"
    by (simp add: rate_snake_def db_def snake_script_def permissive_def)
  from rating_bounds[of "Finite (-1)" permissive "Authenticated alice" 30 "rate_snake (Finite 3)" db]
    rating_bounds[of "Finite 6" permissive "Authenticated alice" 30 "rate_snake (Finite 3)" db]
    rating_bounds[of "Finite 0" permissive "Authenticated alice" 30 "rate_snake (Finite 3)" db
      alice 2]
    rating_bounds[of "Finite 5" permissive "Authenticated alice" 30 "rate_snake (Finite 3)" db
      alice 2]
    low high rest[of "Finite 0"] rest[of "Finite 5"]
  show ?thesis unfolding upd by blast
qed

section \<open>Registration\<close>

lemma register_valid_password:
  "RegisterSerializer_run_validation e data st = Inr vd \<Longrightarrow>
     vd = data \<and> reg_password data \<noteq> None \<and> reg_username data \<noteq> None"
  by (auto simp: RegisterSerializer_run_validation_def Let_def required_def
      split: if_splits)

lemma register_duplicate_email:
  "reg_email data = Some m \<Longrightarrow> m \<in> set (map email (users st)) \<Longrightarrow>
     \<exists>errs. RegisterSerializer_run_validation e data st = Inl (ValidationError errs)"
  by (simp add: RegisterSerializer_run_validation_def Let_def checked_def)

text \<open>
  C6. A registration that succeeds appends one User to the table; the password stored
  is what the framework's hasher makes of the password submitted (so it differs from
  the password submitted whenever the hasher never returns its argument); the answer
  consists of the entries \<open>username\<close> and \<open>email\<close> and has no \<open>password\<close> entry. A
  registration with the email of a User of the table ends with a ValidationError and the
  store is left as it was.
\<close>

theorem registration_hashes_password:
  "(RegisterViewSet_create e data st = (Inr resp, st') \<longrightarrow>
      (\<exists>u pw. reg_password data = Some pw
         \<and> st' = st\<lparr>users := users st @ [u]\<rparr>
         \<and> password u = make_password e (Some pw)
         \<and> ((\<forall>p. make_password e (Some p) \<noteq> p) \<longrightarrow> password u \<noteq> pw)
         \<and> resp = [(''username'', VStr (username u)), (''email'', VStr (email u))]
         \<and> ''password'' \<notin> set (keys resp)))
   \<and> (reg_email data = Some m \<and> m \<in> set (map email (users st)) \<longrightarrow>
      (\<exists>errs. RegisterViewSet_create e data st = (Inl (ValidationError errs), st)))"
proof (intro conjI impI)
  assume run: "RegisterViewSet_create e data st = (Inr resp, st')"
  then obtain vd where valid: "RegisterSerializer_run_validation e data st = Inr vd"
    by (auto simp: RegisterViewSet_create_def split: sum.splits)
  from register_valid_password[OF valid] obtain pw n where
    fields: "vd = data" "reg_password data = Some pw" "reg_username data = Some n"
    by auto
  let ?u = "\<lparr>user_pk = next_pk (map user_pk (users st)), username = normalize_username e n,
      email = normalize_email e (or_default (reg_email data) []),
      password = make_password e (Some pw), is_staff = False\<rparr>"
  from run valid fields have "st' = st\<lparr>users := users st @ [?u]\<rparr>"
    and "resp = [(''username'', VStr (username ?u)), (''email'', VStr (email ?u))]"
    by (auto simp: RegisterViewSet_create_def RegisterSerializer_create_def create_user_def
        Let_def RegisterSerializer_to_representation_def split: if_splits)
  moreover have "password ?u = make_password e (Some pw)" by simp
  ultimately
  show "\<exists>u pw. reg_password data = Some pw
         \<and> st' = st\<lparr>users := users st @ [u]\<rparr>
         \<and> password u = make_password e (Some pw)
         \<and> ((\<forall>p. make_password e (Some p) \<noteq> p) \<longrightarrow> password u \<noteq> pw)
         \<and> resp = [(''username'', VStr (username u)), (''email'', VStr (email u))]
         \<and> ''password'' \<notin> set (keys resp)"
    using fields(2) by (intro exI[of _ ?u] exI[of _ pw]) (simp add: keys_def)
next
  assume "reg_email data = Some m \<and> m \<in> set (map email (users st))"
  then obtain errs where
    "RegisterSerializer_run_validation e data st = Inl (ValidationError errs)"
    using register_duplicate_email by blast
  then show "\<exists>errs. RegisterViewSet_create e data st = (Inl (ValidationError errs), st)"
    by (simp add: RegisterViewSet_create_def)
qed

theorem registration_hashes_password_witness:
  "(\<exists>u resp. RegisterViewSet_create permissive register_dave db
               = (Inr resp, db\<lparr>users := users db @ [u]\<rparr>)
        \<and> password u = ''pbkdf2$dave-secret''
        \<and> ''password'' \<notin> set (keys resp))
   \<and> (\<exists>errs. RegisterViewSet_create permissive register_with_alices_email db
               = (Inl (ValidationError errs), db))"
proof -
  have "\<exists>resp st'. RegisterViewSet_create permissive register_dave db = (Inr resp, st')"
    by (simp add: RegisterViewSet_create_def RegisterSerializer_run_validation_def Let_def
        required_def checked_def register_dave_def permissive_def db_def alice_def bob_def
        carol_def RegisterSerializer_create_def create_user_def)
  then obtain resp st' where
    run: "RegisterViewSet_create permissive register_dave db = (Inr resp, st')"
    by blast
  have pw: "reg_password register_dave = Some ''dave-secret''"
    by (simp add: register_dave_def)
  have hash: "make_password permissive (Some ''dave-secret'') = ''pbkdf2$dave-secret''"
    by (simp add: permissive_def)
  have dup: "reg_email register_with_alices_email = Some ''alice@example.org''
      \<and> ''alice@example.org'' \<in> set (map email (users db))"
    by (simp add: register_with_alices_email_def db_def alice_def)
  from registration_hashes_password[of permissive register_dave db resp st'] run pw hash
  have "\<exists>u resp. RegisterViewSet_create permissive register_dave db
               = (Inr resp, db\<lparr>users := users db @ [u]\<rparr>)
        \<and> password u = ''pbkdf2$dave-secret''
        \<and> ''password'' \<notin> set (keys resp)"
    by auto
  moreover
  from registration_hashes_password[of permissive register_with_alices_email db _ _
      "''alice@example.org''"] dup
  have "\<exists>errs. RegisterViewSet_create permissive register_with_alices_email db
               = (Inl (ValidationError errs), db)"
    by blast
  ultimately show ?thesis by blast
qed

section \<open>Deleting a User or a Script\<close>

text \<open>
  C9. Once a User is deleted, the store holds no Script whose author and no Rating whose
  user is that User, and the scripts of the other users are all kept; a Rating that is
  left still refers to a Script that is left, if all ratings did so before. Once a Script
  is deleted, the store holds no Rating of it, and the ratings of the other scripts are
  all kept. The \<open>destroy\<close> handlers do exactly these deletions.
\<close>

theorem delete_cascades:
  "(\<forall>s \<in> set (scripts (User_delete k st)). author s \<noteq> k)
   \<and> (\<forall>r \<in> set (ratings (User_delete k st)). rating_user r \<noteq> k)
   \<and> (\<forall>u \<in> set (users (User_delete k st)). user_pk u \<noteq> k)
   \<and> set (scripts (User_delete k st)) = {s \<in> set (scripts st). author s \<noteq> k}
   \<and> ((\<forall>r \<in> set (ratings st). rating_script r \<in> set (map script_pk (scripts st))) \<longrightarrow>
        (\<forall>r \<in> set (ratings (User_delete k st)).
            rating_script r \<in> set (map script_pk (scripts (User_delete k st)))))
   \<and> (\<forall>s \<in> set (scripts (Script_delete j st)). script_pk s \<noteq> j)
   \<and> (\<forall>r \<in> set (ratings (Script_delete j st)). rating_script r \<noteq> j)
   \<and> set (ratings (Script_delete j st)) = {r \<in> set (ratings st). rating_script r \<noteq> j}
   \<and> (\<forall>resp st'. UserViewSet_destroy k st = (Inr resp, st') \<longrightarrow> st' = User_delete k st)
   \<and> (\<forall>resp st'. ScriptViewSet_destroy j st = (Inr resp, st') \<longrightarrow> st' = Script_delete j st)"
proof -
  have user_rows: "(\<forall>s \<in> set (scripts (User_delete k st)). author s \<noteq> k)
      \<and> (\<forall>r \<in> set (ratings (User_delete k st)). rating_user r \<noteq> k)
      \<and> (\<forall>u \<in> set (users (User_delete k st)). user_pk u \<noteq> k)
      \<and> set (scripts (User_delete k st)) = {s \<in> set (scripts st). author s \<noteq> k}"
    by (auto simp: User_delete_def Let_def)
  have integrity: "(\<forall>r \<in> set (ratings st). rating_script r \<in> set (map script_pk (scripts st)))
      \<longrightarrow> (\<forall>r \<in> set (ratings (User_delete k st)).
            rating_script r \<in> set (map script_pk (scripts (User_delete k st))))"
    by (auto simp: User_delete_def Let_def image_iff)
  have script_rows: "(\<forall>s \<in> set (scripts (Script_delete j st)). script_pk s \<noteq> j)
      \<and> (\<forall>r \<in> set (ratings (Script_delete j st)). rating_script r \<noteq> j)
      \<and> set (ratings (Script_delete j st)) = {r \<in> set (ratings st). rating_script r \<noteq> j}"
    by (auto simp: Script_delete_def)
  have user_handler:
    "\<forall>resp st'. UserViewSet_destroy k st = (Inr resp, st') \<longrightarrow> st' = User_delete k st"
    by (auto simp: UserViewSet_destroy_def get_user_def find_Some_iff split: option.splits)
  have script_handler:
    "\<forall>resp st'. ScriptViewSet_destroy j st = (Inr resp, st') \<longrightarrow> st' = Script_delete j st"
    by (auto simp: ScriptViewSet_destroy_def get_script_def find_Some_iff split: option.splits)
  from user_rows integrity script_rows user_handler script_handler show ?thesis
    by blast
qed

theorem delete_cascades_witness:
  "map author (scripts db) = [1, 2]
   \<and> scripts (User_delete 1 db) = [snake_script]
   \<and> map author (scripts (User_delete 1 db)) = [2]
   \<and> map rating_user (ratings db) = [2, 1]
   \<and> ratings (User_delete 1 db) = []
   \<and> users (User_delete 1 db) = [bob, carol]
   \<and> ratings (Script_delete 1 db) = [alice_rates_snake]
   \<and> map rating_script (ratings (Script_delete 1 db)) = [2]
   \<and> UserViewSet_destroy 1 db = (Inr NoContent, User_delete 1 db)"
proof -
  have rows: "scripts (User_delete 1 db) = [snake_script]"
      "ratings (User_delete 1 db) = []"
      "users (User_delete 1 db) = [bob, carol]"
      "ratings (Script_delete 1 db) = [alice_rates_snake]"
    by (simp_all add: User_delete_def Script_delete_def Let_def db_def clock_script_def
        snake_script_def bob_rates_clock_def alice_rates_snake_def alice_def bob_def carol_def)
  have before: "map author (scripts db) = [1, 2]" "map rating_user (ratings db) = [2, 1]"
    by (simp_all add: db_def clock_script_def snake_script_def bob_rates_clock_def
        alice_rates_snake_def)
  have handler: "UserViewSet_destroy 1 db = (Inr NoContent, User_delete 1 db)"
    by (simp add: UserViewSet_destroy_def get_user_def db_def alice_def)
  from delete_cascades[of 1 db 1] rows before handler show ?thesis
    by (simp add: snake_script_def alice_rates_snake_def)
qed

section \<open>The view counter\<close>

lemma find_pk_mem:
  "find (\<lambda>x. script_pk x = k) xs = Some s \<Longrightarrow> s \<in> set xs \<and> script_pk s = k"
  by (induction xs) (auto split: if_splits)

lemma distinct_pk_eq:
  "distinct (map script_pk xs) \<Longrightarrow> s \<in> set xs \<Longrightarrow> s' \<in> set xs \<Longrightarrow>
     script_pk s = script_pk s' \<Longrightarrow> s = s'"
  by (simp add: distinct_map inj_on_def)

lemma find_map_keeps_pk:
  "(\<And>x. script_pk (f x) = script_pk x) \<Longrightarrow>
     find (\<lambda>x. script_pk x = k) (map f xs) = map_option f (find (\<lambda>x. script_pk x = k) xs)"
  by (induction xs) simp_all

lemma get_script_update_views:
  "get_script k (update_views j v st)
     = map_option (\<lambda>s. if script_pk s = j then s\<lparr>views := v\<rparr> else s) (get_script k st)"
proof -
  have "\<And>x. script_pk (if script_pk x = j then x\<lparr>views := v\<rparr> else x) = script_pk x"
    by simp
  from find_map_keeps_pk[of "\<lambda>s. if script_pk s = j then s\<lparr>views := v\<rparr> else s", OF this]
  show ?thesis
    by (simp add: get_script_def update_views_def)
qed

lemma get_script_pk: "get_script k st = Some s \<Longrightarrow> s \<in> set (scripts st) \<and> script_pk s = k"
  unfolding get_script_def by (rule find_pk_mem)

lemma retrieve_result:
  assumes "get_script k st = Some s"
  shows "ScriptViewSet_retrieve k st
           = (Inr (ScriptSerializer_to_representation (s\<lparr>views := views s + 1\<rparr>)
                     (update_views k (views s + 1) st)),
              update_views k (views s + 1) st)"
proof -
  from get_script_pk[OF assms] have pk: "script_pk s = k" ..
  have "get_script k (update_views k (views s + 1) st) = Some (s\<lparr>views := views s + 1\<rparr>)"
    using assms pk by (simp add: get_script_update_views)
  then show ?thesis
    using assms pk
    by (simp add: ScriptViewSet_retrieve_def RetrieveModelMixin_retrieve_script_def Let_def)
qed

lemma retrieve_missing:
  "get_script k st = None \<Longrightarrow> ScriptViewSet_retrieve k st = (Inl Http404, st)"
  by (simp add: ScriptViewSet_retrieve_def)

lemma validated_script_read_only:
  "ScriptSerializer_run_validation e partial d st = Inr vd \<Longrightarrow>
     sd_views vd = None \<and> sd_author vd = None \<and> sd_created vd = None \<and> sd_modified vd = None"
  by (auto simp: ScriptSerializer_run_validation_def Let_def script_writable_def
      ScriptSerializer_read_only_fields_def split: if_splits)

lemma setattr_None: "setattr None f i = i"
  by (simp add: setattr_def)

lemma setattr_script_pk:
  "(\<And>x j. script_pk (f x j) = script_pk j) \<Longrightarrow> script_pk (setattr v f i) = script_pk i"
  by (cases v) (simp_all add: setattr_def)

lemma setattr_views:
  "(\<And>x j. views (f x j) = views j) \<Longrightarrow> views (setattr v f i) = views i"
  by (cases v) (simp_all add: setattr_def)

lemma update_script_result:
  assumes run: "ModelSerializer_update_script now instance vd st = (Inr i, st')"
    and no_views: "sd_views vd = None"
  shows "script_pk i = script_pk instance \<and> views i = views instance
     \<and> scripts st' = map (\<lambda>s. if script_pk s = script_pk instance then i else s) (scripts st)"
proof -
  from run have known: "sd_author vd \<noteq> Some AnonymousUser"
    by (auto simp: ModelSerializer_update_script_def)
  have author_pk: "\<And>x j. script_pk (case x of AnonymousUser \<Rightarrow> j
        | Authenticated u \<Rightarrow> j\<lparr>author := user_pk u\<rparr>) = script_pk j"
    by (simp split: principal.splits)
  have author_views: "\<And>x j. views (case x of AnonymousUser \<Rightarrow> j
        | Authenticated u \<Rightarrow> j\<lparr>author := user_pk u\<rparr>) = views j"
    by (simp split: principal.splits)
  have compat: "\<And>s k. scripts (case sd_compatibility vd of None \<Rightarrow> s
        | Some objs \<Rightarrow> s\<lparr>script_compatibility :=
            related_set k objs (script_compatibility s)\<rparr>) = scripts s"
    by (simp split: option.splits)
  from run known have i: "script_pk i = script_pk instance" "views i = views instance"
    by (auto simp: ModelSerializer_update_script_def Let_def save_script_def no_views
        setattr_None setattr_script_pk setattr_views author_pk author_views)
  from run known
  have "scripts st' = map (\<lambda>s. if script_pk s = script_pk i then i else s) (scripts st)"
    by (auto simp: ModelSerializer_update_script_def Let_def save_script_def compat)
  with i show ?thesis by simp
qed

lemma retrieve_scripts:
  assumes "distinct (map script_pk (scripts st))"
    and "ScriptViewSet_retrieve k st = (r, st')"
  shows "\<exists>f. scripts st' = map f (scripts st)
     \<and> (\<forall>x \<in> set (scripts st). script_pk (f x) = script_pk x \<and> views x \<le> views (f x))"
proof (cases "get_script k st")
  case None
  with assms(2) have "st' = st" by (simp add: retrieve_missing)
  then have "scripts st' = map (\<lambda>x. x) (scripts st)" by simp
  then show ?thesis by (intro exI[of _ "\<lambda>x. x"]) simp
next
  case (Some s)
  let ?f = "\<lambda>x. if script_pk x = k then x\<lparr>views := views s + 1\<rparr> else x"
  from get_script_pk[OF Some] have s: "s \<in> set (scripts st)" "script_pk s = k" by simp_all
  from assms(2) Some have "scripts st' = map ?f (scripts st)"
    by (auto simp: retrieve_result update_views_def)
  moreover have "\<forall>x \<in> set (scripts st). script_pk (?f x) = script_pk x \<and> views x \<le> views (?f x)"
  proof
    fix x assume x: "x \<in> set (scripts st)"
    show "script_pk (?f x) = script_pk x \<and> views x \<le> views (?f x)"
    proof (cases "script_pk x = k")
      case True
      with distinct_pk_eq[OF assms(1) x s(1)] s(2) have "x = s" by simp
      with True show ?thesis by simp
    next
      case False
      then show ?thesis by simp
    qed
  qed
  ultimately show ?thesis by (intro exI[of _ ?f]) simp
qed

lemma update_scripts:
  assumes "distinct (map script_pk (scripts st))"
    and "ScriptViewSet_update e now k partial d st = (r, st')"
  shows "\<exists>f. scripts st' = map f (scripts st)
     \<and> (\<forall>x \<in> set (scripts st). script_pk (f x) = script_pk x \<and> views x \<le> views (f x))"
proof -
  have same: "st' = st \<Longrightarrow> ?thesis"
    by (intro exI[of _ "\<lambda>x. x"]) simp
  show ?thesis
  proof (cases "get_script k st")
    case None
    with assms(2) have "st' = st" by (simp add: ScriptViewSet_update_def)
    then show ?thesis by (rule same)
  next
    case (Some inst)
    from get_script_pk[OF Some] have mem: "inst \<in> set (scripts st)" by simp
    show ?thesis
    proof (cases "ScriptSerializer_run_validation e partial d st")
      case (Inl err)
      with assms(2) Some have "st' = st" by (simp add: ScriptViewSet_update_def)
      then show ?thesis by (rule same)
    next
      case (Inr vd)
      obtain res st1 where upd: "ModelSerializer_update_script now inst vd st = (res, st1)"
        by (cases "ModelSerializer_update_script now inst vd st")
      show ?thesis
      proof (cases res)
        case (Inl err)
        with upd have "st1 = st"
          by (auto simp: ModelSerializer_update_script_def Let_def save_script_def
              split: if_splits)
        with assms(2) Some Inr upd Inl have "st' = st" by (simp add: ScriptViewSet_update_def)
        then show ?thesis by (rule same)
      next
        case (Inr i)
        from validated_script_read_only[OF \<open>ScriptSerializer_run_validation e partial d st = Inr vd\<close>]
        have "sd_views vd = None" by simp
        from update_script_result[OF upd[unfolded Inr] this]
        have i: "script_pk i = script_pk inst" "views i = views inst"
          "scripts st1 = map (\<lambda>s. if script_pk s = script_pk inst then i else s) (scripts st)"
          by simp_all
        let ?f = "\<lambda>s. if script_pk s = script_pk inst then i else s"
        from assms(2) Some \<open>ScriptSerializer_run_validation e partial d st = Inr vd\<close> upd Inr
        have "st' = st1" by (simp add: ScriptViewSet_update_def)
        with i(3) have "scripts st' = map ?f (scripts st)" by simp
        moreover have "\<forall>x \<in> set (scripts st). script_pk (?f x) = script_pk x
            \<and> views x \<le> views (?f x)"
        proof
          fix x assume x: "x \<in> set (scripts st)"
          show "script_pk (?f x) = script_pk x \<and> views x \<le> views (?f x)"
          proof (cases "script_pk x = script_pk inst")
            case True
            with distinct_pk_eq[OF assms(1) x mem] have "x = inst" by simp
            with True i show ?thesis by simp
          next
            case False
            then show ?thesis by simp
          qed
        qed
        ultimately show ?thesis by (intro exI[of _ ?f]) simp
      qed
    qed
  qed
qed

lemma create_scripts:
  assumes "ScriptViewSet_create e who now d st = (r, st')"
  shows "scripts st' = scripts st
     \<or> (\<exists>i. scripts st' = scripts st @ [i] \<and> script_pk i \<notin> set (map script_pk (scripts st)))"
proof (cases "ScriptSerializer_run_validation e False d st")
  case (Inl err)
  with assms show ?thesis by (simp add: ScriptViewSet_create_def)
next
  case (Inr vd)
  obtain res st1 where run: "ScriptSerializer_create who now vd st = (res, st1)"
    by (cases "ScriptSerializer_create who now vd st")
  with assms Inr have st': "st' = st1"
    by (auto simp: ScriptViewSet_create_def split: sum.splits)
  have fresh: "next_pk (map script_pk (scripts st)) \<notin> set (map script_pk (scripts st))"
    by (rule next_pk_fresh)
  from run have "scripts st1 = scripts st
     \<or> (\<exists>i. scripts st1 = scripts st @ [i]
           \<and> script_pk i = next_pk (map script_pk (scripts st)))"
    by (auto simp: ScriptSerializer_create_def ModelSerializer_create_script_def Let_def
        split: option.splits principal.splits)
  with fresh st' show ?thesis by auto
qed

lemma destroy_scripts:
  "ScriptViewSet_destroy k st = (r, st') \<Longrightarrow> \<exists>P. scripts st' = filter P (scripts st)"
proof (cases "get_script k st")
  case None
  assume "ScriptViewSet_destroy k st = (r, st')"
  with None have "scripts st' = filter (\<lambda>x. True) (scripts st)"
    by (auto simp: ScriptViewSet_destroy_def)
  then show ?thesis by (rule exI[of _ "\<lambda>x. True"])
next
  case (Some s)
  assume "ScriptViewSet_destroy k st = (r, st')"
  with Some have "scripts st' = filter (\<lambda>x. script_pk x \<noteq> script_pk s) (scripts st)"
    by (auto simp: ScriptViewSet_destroy_def Script_delete_def)
  then show ?thesis by (rule exI[of _ "\<lambda>x. script_pk x \<noteq> script_pk s"])
qed

lemma destroy_user_scripts:
  "UserViewSet_destroy k st = (r, st') \<Longrightarrow> \<exists>P. scripts st' = filter P (scripts st)"
proof (cases "get_user k st")
  case None
  assume "UserViewSet_destroy k st = (r, st')"
  with None have "scripts st' = filter (\<lambda>x. True) (scripts st)"
    by (auto simp: UserViewSet_destroy_def)
  then show ?thesis by (rule exI[of _ "\<lambda>x. True"])
next
  case (Some u)
  assume "UserViewSet_destroy k st = (r, st')"
  with Some have "scripts st' = filter (\<lambda>x. author x \<noteq> user_pk u) (scripts st)"
    by (auto simp: UserViewSet_destroy_def User_delete_def Let_def)
  then show ?thesis by (rule exI[of _ "\<lambda>x. author x \<noteq> user_pk u"])
qed

lemma rating_requests_keep_scripts:
  "RatingViewSet_create e who now d st = (r, st') \<Longrightarrow> scripts st' = scripts st"
  "RatingViewSet_update e now k partial d st = (r, st') \<Longrightarrow> scripts st' = scripts st"
  "RatingViewSet_destroy k st = (r, st') \<Longrightarrow> scripts st' = scripts st"
  by (auto simp: RatingViewSet_create_def RatingSerializer_create_def
      ModelSerializer_create_rating_def RatingViewSet_update_def
      ModelSerializer_update_rating_def RatingViewSet_destroy_def Rating_delete_def Let_def
      split: sum.splits option.splits principal.splits if_splits)

lemma user_requests_keep_scripts:
  "UserViewSet_update e who k partial ud st = (r, st') \<Longrightarrow> scripts st' = scripts st"
  "RegisterViewSet_create e rd st = (r2, st') \<Longrightarrow> scripts st' = scripts st"
  by (auto simp: UserViewSet_update_def UserSerializer_update_def
      ModelSerializer_update_user_def RegisterViewSet_create_def RegisterSerializer_create_def
      create_user_def Let_def
      split: sum.splits option.splits if_splits prod.splits)

lemma group_requests_keep_scripts:
  "GroupViewSet_create e d st = (r, st') \<Longrightarrow> scripts st' = scripts st"
  "GroupViewSet_update e k partial d st = (r, st') \<Longrightarrow> scripts st' = scripts st"
  "GroupViewSet_destroy k st = (r, st') \<Longrightarrow> scripts st' = scripts st"
  by (auto simp: GroupViewSet_create_def GroupViewSet_update_def GroupViewSet_destroy_def
      Let_def split: sum.splits option.splits)

lemma os_requests_keep_scripts:
  "OSViewSet_create e d st = (r, st') \<Longrightarrow> scripts st' = scripts st"
  "OSViewSet_update e k partial d st = (r, st') \<Longrightarrow> scripts st' = scripts st"
  "OSViewSet_destroy k st = (r, st') \<Longrightarrow> scripts st' = scripts st"
  by (auto simp: OSViewSet_create_def OSViewSet_update_def OSViewSet_destroy_def
      Let_def split: sum.splits option.splits)

lemma map_keeps_order:
  assumes "distinct (map script_pk xs)"
    and "\<forall>x \<in> set xs. script_pk (f x) = script_pk x \<and> views x \<le> views (f x)"
  shows "(\<forall>s \<in> set xs. \<forall>s' \<in> set (map f xs). script_pk s' = script_pk s \<longrightarrow> views s \<le> views s')
     \<and> distinct (map script_pk (map f xs))"
proof
  show "\<forall>s \<in> set xs. \<forall>s' \<in> set (map f xs). script_pk s' = script_pk s \<longrightarrow> views s \<le> views s'"
  proof (intro ballI impI)
    fix s s' assume s: "s \<in> set xs" and s': "s' \<in> set (map f xs)"
      and pk: "script_pk s' = script_pk s"
    from s' obtain x where x: "x \<in> set xs" "s' = f x" by auto
    with assms(2) pk have "script_pk x = script_pk s" by simp
    from distinct_pk_eq[OF assms(1) x(1) s this] have "x = s" .
    with assms(2) s x show "views s \<le> views s'" by simp
  qed
  have same_keys: "map script_pk (map f xs) = map script_pk xs"
    using assms(2) by simp
  show "distinct (map script_pk (map f xs))"
    unfolding same_keys by (rule assms(1))
qed

lemma filter_keeps_order:
  assumes "distinct (map script_pk xs)"
  shows "(\<forall>s \<in> set xs. \<forall>s' \<in> set (filter P xs). script_pk s' = script_pk s \<longrightarrow> views s \<le> views s')
     \<and> distinct (map script_pk (filter P xs))"
proof
  show "\<forall>s \<in> set xs. \<forall>s' \<in> set (filter P xs). script_pk s' = script_pk s \<longrightarrow> views s \<le> views s'"
  proof (intro ballI impI)
    fix s s' assume s: "s \<in> set xs" and s': "s' \<in> set (filter P xs)"
      and pk: "script_pk s' = script_pk s"
    from s' have "s' \<in> set xs" by simp
    from distinct_pk_eq[OF assms this s pk] show "views s \<le> views s'" by simp
  qed
  from assms show "distinct (map script_pk (filter P xs))"
    by (rule distinct_map_filter)
qed

lemma append_keeps_order:
  assumes "distinct (map script_pk xs)" and "script_pk i \<notin> set (map script_pk xs)"
  shows "(\<forall>s \<in> set xs. \<forall>s' \<in> set (xs @ [i]). script_pk s' = script_pk s \<longrightarrow> views s \<le> views s')
     \<and> distinct (map script_pk (xs @ [i]))"
proof
  show "\<forall>s \<in> set xs. \<forall>s' \<in> set (xs @ [i]). script_pk s' = script_pk s \<longrightarrow> views s \<le> views s'"
  proof (intro ballI impI)
    fix s s' assume s: "s \<in> set xs" and s': "s' \<in> set (xs @ [i])"
      and pk: "script_pk s' = script_pk s"
    from s pk assms(2) have "s' \<noteq> i" by auto
    with s' have "s' \<in> set xs" by simp
    from distinct_pk_eq[OF assms(1) this s pk] show "views s \<le> views s'" by simp
  qed
  from assms show "distinct (map script_pk (xs @ [i]))" by simp
qed

lemma handle_scripts:
  assumes "distinct (map script_pk (scripts st))"
    and "handle e who now req st = (r, st')"
  shows "(\<exists>f. scripts st' = map f (scripts st)
            \<and> (\<forall>x \<in> set (scripts st). script_pk (f x) = script_pk x \<and> views x \<le> views (f x)))
     \<or> (\<exists>P. scripts st' = filter P (scripts st))
     \<or> (\<exists>i. scripts st' = scripts st @ [i] \<and> script_pk i \<notin> set (map script_pk (scripts st)))"
proof -
  have same: "scripts st' = scripts st \<Longrightarrow> ?thesis"
  proof -
    assume "scripts st' = scripts st"
    then have "scripts st' = filter (\<lambda>x. True) (scripts st)" by simp
    then have "\<exists>P. scripts st' = filter P (scripts st)"
      by (rule exI[of _ "\<lambda>x. True"])
    then show ?thesis by blast
  qed
  show ?thesis
  proof (cases req)
    case (RetrieveScript k)
    with assms(2) obtain r0 where "ScriptViewSet_retrieve k st = (r0, st')"
      by (auto split: prod.splits)
    from retrieve_scripts[OF assms(1) this] show ?thesis by blast
  next
    case (CreateScript d)
    with assms(2) have "ScriptViewSet_create e who now d st = (r, st')" by simp
    from create_scripts[OF this] same show ?thesis by blast
  next
    case (UpdateScript k partial d)
    with assms(2) have "ScriptViewSet_update e now k partial d st = (r, st')" by simp
    from update_scripts[OF assms(1) this] show ?thesis by blast
  next
    case (DestroyScript k)
    with assms(2) have "ScriptViewSet_destroy k st = (r, st')" by simp
    from destroy_scripts[OF this] show ?thesis by blast
  next
    case (CreateRating d)
    with assms(2) have "RatingViewSet_create e who now d st = (r, st')" by simp
    from rating_requests_keep_scripts(1)[OF this] same show ?thesis by blast
  next
    case (UpdateRating k partial d)
    with assms(2) have "RatingViewSet_update e now k partial d st = (r, st')" by simp
    from rating_requests_keep_scripts(2)[OF this] same show ?thesis by blast
  next
    case (DestroyRating k)
    with assms(2) have "RatingViewSet_destroy k st = (r, st')" by simp
    from rating_requests_keep_scripts(3)[OF this] same show ?thesis by blast
  next
    case (UpdateUser k partial d)
    with assms(2) have "UserViewSet_update e who k partial d st = (r, st')" by simp
    from user_requests_keep_scripts(1)[OF this] same show ?thesis by blast
  next
    case (DestroyUser k)
    with assms(2) have "UserViewSet_destroy k st = (r, st')" by simp
    from destroy_user_scripts[OF this] show ?thesis by blast
  next
    case (Register d)
    with assms(2) obtain r0 where "RegisterViewSet_create e d st = (r0, st')"
      by (auto split: prod.splits)
    from user_requests_keep_scripts(2)[OF this] same show ?thesis by blast
  next
    case (CreateGroup d)
    with assms(2) have "GroupViewSet_create e d st = (r, st')" by simp
    from group_requests_keep_scripts(1)[OF this] same show ?thesis by blast
  next
    case (UpdateGroup k partial d)
    with assms(2) have "GroupViewSet_update e k partial d st = (r, st')" by simp
    from group_requests_keep_scripts(2)[OF this] same show ?thesis by blast
  next
    case (DestroyGroup k)
    with assms(2) have "GroupViewSet_destroy k st = (r, st')" by simp
    from group_requests_keep_scripts(3)[OF this] same show ?thesis by blast
  next
    case (CreateOS d)
    with assms(2) have "OSViewSet_create e d st = (r, st')" by simp
    from os_requests_keep_scripts(1)[OF this] same show ?thesis by blast
  next
    case (UpdateOS k partial d)
    with assms(2) have "OSViewSet_update e k partial d st = (r, st')" by simp
    from os_requests_keep_scripts(2)[OF this] same show ?thesis by blast
  next
    case (DestroyOS k)
    with assms(2) have "OSViewSet_destroy k st = (r, st')" by simp
    from os_requests_keep_scripts(3)[OF this] same show ?thesis by blast
  qed
qed

lemma map_update_views:
  "(\<And>x. g (x\<lparr>views := v\<rparr>) = g x) \<Longrightarrow>
     map g (map (\<lambda>x. if script_pk x = k then x\<lparr>views := v\<rparr> else x) xs) = map g xs"
  by (induction xs) simp_all

text \<open>
  C2, as stated: a retrieval that succeeds adds exactly 1 to the counter of its Script,
  and no operation ever decreases the counter. The second part fails when retrievals of
  one Script run side by side. Of three retrievals of script 1 of the example database,
  the first reads \<open>views = 0\<close>; the second runs to its end and the third reads and
  writes, which leaves the counter at 2; the first then writes the 1 it computed from
  what it read, and the counter goes down from 2 to 1.
\<close>

theorem interleaved_retrieval_lowers_views:
  "map_option views (get_script 1 db) = Some 0
   \<and> map_option views (get_script 1 (snd (interleave [0, 1, 1, 1, 2, 2]
        [Started 1, Started 1, Started 1] db))) = Some 2
   \<and> map_option views (get_script 1 (snd (interleave [0, 1, 1, 1, 2, 2, 0]
        [Started 1, Started 1, Started 1] db))) = Some 1
   \<and> list_all is_responded (fst (interleave [0, 1, 1, 1, 2, 2, 0, 0, 2]
        [Started 1, Started 1, Started 1] db))
   \<and> map_option views (get_script 1 (snd (interleave [0, 1, 1, 1, 2, 2, 0, 0, 2]
        [Started 1, Started 1, Started 1] db))) = Some 1"
  by (simp add: db_def clock_script_def snake_script_def get_script_def update_views_def
      RetrieveModelMixin_retrieve_script_def)

text \<open>
  C2, amended. A retrieval of a Script that succeeds and is handled as a whole, no
  statement of another request running between its read and its write, leaves the
  \<open>views\<close> of that Script at its value before the request plus 1. No request handled
  as a whole decreases a view counter: in a store whose scripts have distinct keys,
  whatever the request, a script that is in the store before and after has at least the
  \<open>views\<close> it had, and the keys stay distinct.
\<close>

theorem views_count_retrievals:
  "(\<forall>d st'. ScriptViewSet_retrieve k st = (Inr d, st') \<longrightarrow>
      (\<exists>s s'. get_script k st = Some s \<and> get_script k st' = Some s'
         \<and> views s' = views s + 1))
   \<and> (distinct (map script_pk (scripts st)) \<longrightarrow>
      (\<forall>r st'. handle e who now req st = (r, st') \<longrightarrow>
         (\<forall>s \<in> set (scripts st). \<forall>s' \<in> set (scripts st').
             script_pk s' = script_pk s \<longrightarrow> views s \<le> views s')
         \<and> distinct (map script_pk (scripts st'))))"
proof -
  have counted: "\<exists>s s'. get_script k st = Some s \<and> get_script k st' = Some s'
      \<and> views s' = views s + 1"
    if run: "ScriptViewSet_retrieve k st = (Inr d, st')" for d st'
  proof (cases "get_script k st")
    case None
    with run show ?thesis by (simp add: retrieve_missing)
  next
    case (Some s)
    from get_script_pk[OF Some] have pk: "script_pk s = k" by simp
    from run have "st' = update_views k (views s + 1) st"
      by (simp add: retrieve_result[OF Some])
    then have "get_script k st' = Some (s\<lparr>views := views s + 1\<rparr>)"
      using Some pk by (simp add: get_script_update_views)
    with Some show ?thesis by simp
  qed
  have monotone: "(\<forall>s \<in> set (scripts st). \<forall>s' \<in> set (scripts st').
        script_pk s' = script_pk s \<longrightarrow> views s \<le> views s')
      \<and> distinct (map script_pk (scripts st'))"
    if dist: "distinct (map script_pk (scripts st))"
      and run: "handle e who now req st = (r, st')" for r st'
    using handle_scripts[OF dist run]
  proof (elim disjE exE conjE)
    fix f assume "scripts st' = map f (scripts st)"
      and "\<forall>x \<in> set (scripts st). script_pk (f x) = script_pk x \<and> views x \<le> views (f x)"
    with map_keeps_order[OF dist, of f] show ?thesis by simp
  next
    fix P assume "scripts st' = filter P (scripts st)"
    with filter_keeps_order[OF dist, of P] show ?thesis by simp
  next
    fix i assume "scripts st' = scripts st @ [i]"
      and "script_pk i \<notin> set (map script_pk (scripts st))"
    with append_keeps_order[OF dist, of i] show ?thesis by simp
  qed
  from counted monotone show ?thesis by blast
qed

theorem views_count_retrievals_witness:
  "distinct (map script_pk (scripts db))
   \<and> (\<exists>d st' s'. ScriptViewSet_retrieve 2 db = (Inr d, st')
         \<and> get_script 2 st' = Some s' \<and> views s' = 5)
   \<and> sd_views forged_script = Some 1000
   \<and> map views (scripts (snd (handle permissive (Authenticated bob) 30
          (UpdateScript 2 False forged_script) db))) = [0, 4]
   \<and> distinct (map script_pk (scripts (snd (handle permissive (Authenticated bob) 30
          (UpdateScript 2 False forged_script) db))))"
proof -
  have dist: "distinct (map script_pk (scripts db))"
    by (simp add: db_def clock_script_def snake_script_def)
  have got: "get_script 2 db = Some snake_script"
    by (simp add: get_script_def db_def clock_script_def snake_script_def)
  note fact = views_count_retrievals[of 2 db permissive "Authenticated bob" 30
      "UpdateScript 2 False forged_script"]
  from retrieve_result[OF got] obtain d st' where
    run: "ScriptViewSet_retrieve 2 db = (Inr d, st')"
    by blast
  with fact got obtain s' where "get_script 2 st' = Some s'"
    and "views s' = views snake_script + 1"
    by auto
  then have counted: "get_script 2 st' = Some s' \<and> views s' = 5"
    by (simp add: snake_script_def)
  have valid: "ScriptSerializer_run_validation permissive False forged_script db
      = Inr (forged_script\<lparr>sd_author := None, sd_views := None\<rparr>)"
    by (simp add: ScriptSerializer_run_validation_def Let_def script_writable_def
        ScriptSerializer_read_only_fields_def required_def checked_def forged_script_def
        permissive_def db_def)
  obtain r st'' where handled: "handle permissive (Authenticated bob) 30
      (UpdateScript 2 False forged_script) db = (r, st'')"
    by (cases "handle permissive (Authenticated bob) 30
      (UpdateScript 2 False forged_script) db")
  have "snd (handle permissive (Authenticated bob) 30 (UpdateScript 2 False forged_script) db)
      = snd (ModelSerializer_update_script 30 snake_script
               (forged_script\<lparr>sd_author := None, sd_views := None\<rparr>) db)"
    by (simp add: ScriptViewSet_update_def got valid split: prod.splits sum.splits)
  moreover have "map views (scripts (snd (ModelSerializer_update_script 30 snake_script
      (forged_script\<lparr>sd_author := None, sd_views := None\<rparr>) db))) = [0, 4]"
    by (simp add: ModelSerializer_update_script_def Let_def setattr_def save_script_def
        forged_script_def db_def clock_script_def snake_script_def)
  ultimately have "map views (scripts st'') = [0, 4]"
    using handled by simp
  moreover from fact dist handled have "distinct (map script_pk (scripts st''))"
    by blast
  moreover have "sd_views forged_script = Some 1000"
    by (simp add: forged_script_def)
  ultimately show ?thesis
    using handled dist run counted by auto
qed

text \<open>
  C7. A retrieval changes nothing but \<open>views\<close>: the Script retrieved is afterwards the row
  it was with \<open>views\<close> one higher, so its \<open>modified\<close> and every other column are the same;
  the \<open>modified\<close> column of the whole table is the same, the table is the same up to
  \<open>views\<close>, the rows of other scripts are kept, and the other tables are untouched.
\<close>

theorem retrieve_changes_views_only:
  assumes "get_script k st = Some s" and "ScriptViewSet_retrieve k st = (r, st')"
  shows "get_script k st' = Some (s\<lparr>views := views s + 1\<rparr>)
     \<and> map script_modified (scripts st') = map script_modified (scripts st)
     \<and> map (\<lambda>x. x\<lparr>views := 0\<rparr>) (scripts st') = map (\<lambda>x. x\<lparr>views := 0\<rparr>) (scripts st)
     \<and> (\<forall>x \<in> set (scripts st). script_pk x \<noteq> k \<longrightarrow> x \<in> set (scripts st'))
     \<and> st'\<lparr>scripts := scripts st\<rparr> = st"
proof -
  from get_script_pk[OF assms(1)] have pk: "script_pk s = k" by simp
  from assms have st': "st' = update_views k (views s + 1) st"
    by (simp add: retrieve_result)
  have target: "get_script k st' = Some (s\<lparr>views := views s + 1\<rparr>)"
    using assms(1) pk by (simp add: st' get_script_update_views)
  have rows: "scripts st'
      = map (\<lambda>x. if script_pk x = k then x\<lparr>views := views s + 1\<rparr> else x) (scripts st)"
    by (simp add: st' update_views_def)
  have modified: "map script_modified (scripts st') = map script_modified (scripts st)"
    unfolding rows by (rule map_update_views) simp
  have others: "map (\<lambda>x. x\<lparr>views := 0\<rparr>) (scripts st') = map (\<lambda>x. x\<lparr>views := 0\<rparr>) (scripts st)"
    unfolding rows by (rule map_update_views) simp
  have kept: "\<forall>x \<in> set (scripts st). script_pk x \<noteq> k \<longrightarrow> x \<in> set (scripts st')"
    unfolding rows by force
  have frame: "st'\<lparr>scripts := scripts st\<rparr> = st"
    by (simp add: st' update_views_def)
  from target modified others kept frame show ?thesis by blast
qed

theorem retrieve_changes_views_only_witness:
  "get_script 2 db = Some snake_script
   \<and> get_script 2 (snd (ScriptViewSet_retrieve 2 db)) = Some (snake_script\<lparr>views := 5\<rparr>)
   \<and> map script_modified (scripts (snd (ScriptViewSet_retrieve 2 db))) = [20, 11]"
proof -
  have got: "get_script 2 db = Some snake_script"
    by (simp add: get_script_def db_def clock_script_def snake_script_def)
  obtain r st' where run: "ScriptViewSet_retrieve 2 db = (r, st')"
    by (cases "ScriptViewSet_retrieve 2 db")
  from retrieve_changes_views_only[OF got run] got run show ?thesis
    by (simp add: db_def clock_script_def snake_script_def)
qed

section \<open>Retrievals that run side by side\<close>

lemma interleave_append:
  "interleave (a @ b) rs st = (case interleave a rs st of (rs', st') \<Rightarrow> interleave b rs' st')"
  by (induction a arbitrary: rs st) (auto split: prod.splits)

lemma interleave_one_request:
  assumes "length pre = j"
  shows "interleave [j, j, j] (pre @ Started k # post) st
     = (pre @ Responded (fst (ScriptViewSet_retrieve k st)) # post,
        snd (ScriptViewSet_retrieve k st))"
  using assms
  by (cases "get_script k st")
     (simp_all add: ScriptViewSet_retrieve_def Let_def nth_append list_update_append)

lemma interleave_serial:
  "length pre = j \<Longrightarrow> list_all is_responded pre \<Longrightarrow>
     snd (interleave (serial j n) (pre @ replicate n (Started k)) st) = retrieve_times n k st
     \<and> list_all is_responded (fst (interleave (serial j n) (pre @ replicate n (Started k)) st))"
proof (induction n arbitrary: pre j st)
  case 0
  then show ?case by simp
next
  case (Suc n)
  let ?r = "Responded (fst (ScriptViewSet_retrieve k st))"
  let ?st = "snd (ScriptViewSet_retrieve k st)"
  have first: "interleave [j, j, j] (pre @ Started k # replicate n (Started k)) st
      = ((pre @ [?r]) @ replicate n (Started k), ?st)"
    using interleave_one_request[OF Suc.prems(1), of k "replicate n (Started k)" st] by simp
  have "length (pre @ [?r]) = Suc j" "list_all is_responded (pre @ [?r])"
    using Suc.prems by simp_all
  from Suc.IH[OF this, of ?st]
  have rest: "snd (interleave (serial (Suc j) n) ((pre @ [?r]) @ replicate n (Started k)) ?st)
        = retrieve_times n k ?st
      \<and> list_all is_responded
          (fst (interleave (serial (Suc j) n) ((pre @ [?r]) @ replicate n (Started k)) ?st))" .
  have "interleave (serial j (Suc n)) (pre @ replicate (Suc n) (Started k)) st
      = interleave (serial (Suc j) n) ((pre @ [?r]) @ replicate n (Started k)) ?st"
    unfolding serial.simps replicate.simps interleave_append first by simp
  with rest show ?case by simp
qed

lemma retrieve_times_views:
  "get_script k st = Some s \<Longrightarrow>
     get_script k (retrieve_times n k st) = Some (s\<lparr>views := views s + int n\<rparr>)"
proof (induction n arbitrary: st s)
  case 0
  then show ?case by simp
next
  case (Suc n)
  from get_script_pk[OF Suc.prems] have pk: "script_pk s = k" by simp
  have step: "snd (ScriptViewSet_retrieve k st) = update_views k (views s + 1) st"
    by (simp add: retrieve_result[OF Suc.prems])
  have "get_script k (update_views k (views s + 1) st) = Some (s\<lparr>views := views s + 1\<rparr>)"
    using Suc.prems pk by (simp add: get_script_update_views)
  from Suc.IH[OF this] show ?case
    by (simp add: step add.assoc)
qed

text \<open>
  C8, as stated: whatever the schedule, once N retrievals of one Script have all
  responded the counter of the Script is its value before plus N. It fails for two
  retrievals of script 1 of the example database whose statements alternate: both read
  \<open>views = 0\<close>, both write 1, and the counter ends at 1 instead of 2.
\<close>

theorem concurrent_retrievals_lose_update:
  "list_all is_responded (fst (interleave [0, 1, 0, 1, 0, 1] [Started 1, Started 1] db))
   \<and> map_option views (get_script 1 db) = Some 0
   \<and> map_option views
        (get_script 1 (snd (interleave [0, 1, 0, 1, 0, 1] [Started 1, Started 1] db)))
      = Some 1
   \<and> map_option views
        (get_script 1 (snd (interleave [0, 1, 0, 1, 0, 1] [Started 1, Started 1] db)))
      \<noteq> Some (0 + 2)"
  by (simp add: db_def clock_script_def snake_script_def get_script_def update_views_def
      RetrieveModelMixin_retrieve_script_def)

text \<open>
  C8, amended. The statement of \<open>retrieve\<close> that writes sets \<open>views\<close> to the value that
  \<open>get_object\<close> read plus 1, whatever the store holds by then. N retrievals of one Script
  that run one after the other, each through its three statements before the next
  starts, all respond and leave the counter at its value before plus N.
\<close>

theorem serial_retrievals_add_up:
  assumes "get_script k st = Some s"
  shows "snd (retrieve_step (Loaded k i) st0) = update_views (script_pk i) (views i + 1) st0
     \<and> list_all is_responded (fst (interleave (serial 0 n) (replicate n (Started k)) st))
     \<and> get_script k (snd (interleave (serial 0 n) (replicate n (Started k)) st))
         = Some (s\<lparr>views := views s + int n\<rparr>)"
proof -
  from interleave_serial[of "[]" 0 n k st]
  have "snd (interleave (serial 0 n) (replicate n (Started k)) st) = retrieve_times n k st"
    and "list_all is_responded (fst (interleave (serial 0 n) (replicate n (Started k)) st))"
    by simp_all
  with retrieve_times_views[OF assms, of n] show ?thesis by simp
qed

theorem serial_retrievals_add_up_witness:
  "get_script 1 db = Some clock_script
   \<and> list_all is_responded (fst (interleave (serial 0 2) [Started 1, Started 1] db))
   \<and> map_option views (get_script 1 (snd (interleave (serial 0 2) [Started 1, Started 1] db)))
      = Some 2"
proof -
  have got: "get_script 1 db = Some clock_script"
    by (simp add: get_script_def db_def clock_script_def)
  have two: "replicate 2 (Started 1) = [Started 1, Started 1]"
    by (simp add: numeral_2_eq_2)
  from serial_retrievals_add_up[OF got, of undefined undefined 2] got show ?thesis
    unfolding two by (simp add: clock_script_def)
qed

end
